theory Spec2Isabelle
  imports Complex_Main "HOL-Library.Log_Nat"
begin

section \<open>Data model\<close>

text \<open>
  A number that the application stores (a coordinate, a zoom level) is a finite double and
  is modelled by the real number it denotes. The arithmetic on numbers is not taken to be
  exact: the route length is computed in an arithmetic that is a parameter of the model,
  with double arithmetic and exact arithmetic as two instances (section
  \<open>JavaScript arithmetic\<close>). A \<open>Date\<close> is its epoch time, an optional field (\<open>?:\<close>,
  possibly \<open>undefined\<close>) is an \<open>option\<close>.
\<close>

type_synonym date = int

text \<open>
  \<open>src/types/index.ts\<close>: interface \<open>ImageMetadata\<close>. The field \<open>make\<close> is written
  \<open>make'\<close>, since a record already has a constant of that name.
\<close>

record ImageMetadata =
  latitude :: real
  longitude :: real
  timestamp :: "date option"
  make' :: "string option"
  model :: "string option"
  fileName :: string
  url :: string
  altitude :: "real option"
  exposureTime :: "real option"
  fNumber :: "real option"
  iso :: "real option"
  focalLength :: "real option"

section \<open>Marker sampling: zoom level to sample rate\<close>

text \<open>
  \<open>calculateSampleRate\<close> of the \<open>Map\<close> component (\<open>components/ImageViewer.tsx\<close>):
  a chain of early returns.
\<close>

definition calculateSampleRate :: "real \<Rightarrow> nat" where
  "calculateSampleRate zoom =
     (if zoom \<ge> 18 then 1
      else if zoom \<ge> 17 then 6
      else if zoom \<ge> 16 then 12
      else if zoom \<ge> 15 then 18
      else if zoom \<ge> 14 then 24
      else if zoom \<ge> 13 then 30
      else 40)"

section \<open>JavaScript arithmetic\<close>

text \<open>
  A number value: \<open>NaN\<close>, an infinity, or a finite number. The two zeros of double
  arithmetic are not told apart.
\<close>

datatype js_number = NaN | Infinity | NegInfinity | Num real

definition negate :: "js_number \<Rightarrow> js_number" where
  "negate v = (case v of NaN \<Rightarrow> NaN | Infinity \<Rightarrow> NegInfinity
                | NegInfinity \<Rightarrow> Infinity | Num x \<Rightarrow> Num (- x))"

text \<open>
  The arithmetic that a function computes with: the number value of a literal or of a
  stored number, the four operators, and the functions and the constant of \<open>Math\<close> that
  the application calls. The distance functions below take it as their first argument.
\<close>

record 'n js_arithmetic =
  js_num :: "real \<Rightarrow> 'n"
  js_add :: "'n \<Rightarrow> 'n \<Rightarrow> 'n"
  js_sub :: "'n \<Rightarrow> 'n \<Rightarrow> 'n"
  js_mul :: "'n \<Rightarrow> 'n \<Rightarrow> 'n"
  js_div :: "'n \<Rightarrow> 'n \<Rightarrow> 'n"
  Math_sin :: "'n \<Rightarrow> 'n"
  Math_cos :: "'n \<Rightarrow> 'n"
  Math_sqrt :: "'n \<Rightarrow> 'n"
  Math_atan2 :: "'n \<Rightarrow> 'n \<Rightarrow> 'n"
  Math_PI :: 'n

text \<open>
  Exact arithmetic on the real numbers. \<open>atan2 y x\<close> is the angle of the point
  \<open>(x, y)\<close>, in \<open>(-\<pi>, \<pi>]\<close>, with the value 0 at the origin.
\<close>

definition atan2 :: "real \<Rightarrow> real \<Rightarrow> real" where
  "atan2 y x =
     (if x > 0 then arctan (y / x)
      else if x < 0 \<and> y \<ge> 0 then arctan (y / x) + pi
      else if x < 0 then arctan (y / x) - pi
      else if y > 0 then pi / 2
      else if y < 0 then - (pi / 2)
      else 0)"

definition exact_arithmetic :: "real js_arithmetic" where
  "exact_arithmetic =
     \<lparr>js_num = (\<lambda>x. x), js_add = (+), js_sub = (-), js_mul = (*), js_div = (/),
      Math_sin = sin, Math_cos = cos, Math_sqrt = sqrt, Math_atan2 = atan2, Math_PI = pi\<rparr>"

text \<open>
  Double arithmetic. \<open>round_double\<close> rounds a real number to the nearest double, ties to
  the even significand: \<open>double_lsb x\<close> is the exponent of the last of the 53 bits of the
  binade of \<open>x\<close>, not below the exponent -1074 of the subnormal numbers. \<open>to_double\<close>
  adds the overflow to an infinity.
\<close>

definition round_half_even :: "real \<Rightarrow> int" where
  "round_half_even q =
     (let n = \<lfloor>q\<rfloor>; r = q - of_int n
      in if r < 1 / 2 then n
         else if 1 / 2 < r then n + 1
         else if even n then n else n + 1)"

definition double_lsb :: "real \<Rightarrow> int" where
  "double_lsb x = max (bitlen \<lfloor>\<bar>x\<bar> * 2 ^ 1074\<rfloor> - 1127) (- 1074)"

definition round_double :: "real \<Rightarrow> real" where
  "round_double x = of_int (round_half_even (x / 2 powi double_lsb x)) * 2 powi double_lsb x"

definition to_double :: "real \<Rightarrow> js_number" where
  "to_double x =
     (let r = round_double x
      in if 2 ^ 1024 \<le> r then Infinity
         else if r \<le> - (2 ^ 1024) then NegInfinity
         else Num r)"

text \<open>
  The four operators on doubles: \<open>NaN\<close> in an argument gives \<open>NaN\<close>, on finite arguments
  the exact result is rounded, and the remaining cases are those of the infinities
  (\<open>\<infinity> - \<infinity>\<close>, \<open>0 * \<infinity>\<close>, \<open>0 / 0\<close> and \<open>\<infinity> / \<infinity>\<close> are \<open>NaN\<close>). A quotient by zero
  takes its sign from the dividend alone.
\<close>

definition js_sign :: "js_number \<Rightarrow> real" where
  "js_sign v = (case v of NaN \<Rightarrow> 0 | Infinity \<Rightarrow> 1 | NegInfinity \<Rightarrow> - 1 | Num x \<Rightarrow> sgn x)"

definition infinity_of_sign :: "real \<Rightarrow> js_number" where
  "infinity_of_sign s = (if s = 0 then NaN else if 0 < s then Infinity else NegInfinity)"

definition double_add :: "js_number \<Rightarrow> js_number \<Rightarrow> js_number" where
  "double_add x y =
     (if x = NaN \<or> y = NaN then NaN
      else case (x, y) of
             (Num a, Num b) \<Rightarrow> to_double (a + b)
           | (Num a, _) \<Rightarrow> y
           | (_, Num b) \<Rightarrow> x
           | _ \<Rightarrow> if x = y then x else NaN)"

definition double_sub :: "js_number \<Rightarrow> js_number \<Rightarrow> js_number" where
  "double_sub x y = double_add x (negate y)"

definition double_mul :: "js_number \<Rightarrow> js_number \<Rightarrow> js_number" where
  "double_mul x y =
     (if x = NaN \<or> y = NaN then NaN
      else case (x, y) of
             (Num a, Num b) \<Rightarrow> to_double (a * b)
           | _ \<Rightarrow> infinity_of_sign (js_sign x * js_sign y))"

definition double_div :: "js_number \<Rightarrow> js_number \<Rightarrow> js_number" where
  "double_div x y =
     (if x = NaN \<or> y = NaN then NaN
      else case (x, y) of
             (Num a, Num b) \<Rightarrow> if b = 0 then infinity_of_sign (sgn a) else to_double (a / b)
           | (Num a, _) \<Rightarrow> Num 0
           | (_, Num b) \<Rightarrow> infinity_of_sign (js_sign x * (if b < 0 then - 1 else 1))
           | _ \<Rightarrow> NaN)"

text \<open>
  The language standard leaves the precision of \<open>Math.sin\<close>, \<open>Math.cos\<close>, \<open>Math.sqrt\<close>
  and \<open>Math.atan2\<close> to the engine and fixes their results on \<open>NaN\<close>, on the infinities and
  on negative arguments of \<open>Math.sqrt\<close>. A \<open>math_engine\<close> holds the engine's part: the
  results on finite arguments and, for \<open>Math.atan2\<close>, on all arguments other than \<open>NaN\<close>.
  \<open>Math.PI\<close> is the double nearest to \<open>\<pi>\<close>.
\<close>

record math_engine =
  engine_sin :: "real \<Rightarrow> real"
  engine_cos :: "real \<Rightarrow> real"
  engine_sqrt :: "real \<Rightarrow> real"
  engine_atan2 :: "js_number \<Rightarrow> js_number \<Rightarrow> real"

definition double_sin :: "math_engine \<Rightarrow> js_number \<Rightarrow> js_number" where
  "double_sin e x = (case x of Num a \<Rightarrow> Num (engine_sin e a) | _ \<Rightarrow> NaN)"

definition double_cos :: "math_engine \<Rightarrow> js_number \<Rightarrow> js_number" where
  "double_cos e x = (case x of Num a \<Rightarrow> Num (engine_cos e a) | _ \<Rightarrow> NaN)"

definition double_sqrt :: "math_engine \<Rightarrow> js_number \<Rightarrow> js_number" where
  "double_sqrt e x =
     (case x of
        Num a \<Rightarrow> if a < 0 then NaN else Num (engine_sqrt e a)
      | Infinity \<Rightarrow> Infinity
      | _ \<Rightarrow> NaN)"

definition double_atan2 :: "math_engine \<Rightarrow> js_number \<Rightarrow> js_number \<Rightarrow> js_number" where
  "double_atan2 e y x = (if y = NaN \<or> x = NaN then NaN else Num (engine_atan2 e y x))"

definition double_arithmetic :: "math_engine \<Rightarrow> js_number js_arithmetic" where
  "double_arithmetic e =
     \<lparr>js_num = to_double, js_add = double_add, js_sub = double_sub, js_mul = double_mul,
      js_div = double_div, Math_sin = double_sin e, Math_cos = double_cos e,
      Math_sqrt = double_sqrt e, Math_atan2 = double_atan2 e,
      Math_PI = Num (884279719003555 / 281474976710656)\<rparr>"

section \<open>Route length\<close>

text \<open>
  \<open>deg2rad\<close>, \<open>getDistanceFromLatLonInKm\<close> and \<open>calculateDistance\<close> of \<open>App.tsx\<close>, each
  operator and each call written in the arithmetic \<open>m\<close>, in the order in which JavaScript
  evaluates the expression.
\<close>

definition deg2rad :: "'n js_arithmetic \<Rightarrow> 'n \<Rightarrow> 'n" where
  "deg2rad m deg = js_mul m deg (js_div m (Math_PI m) (js_num m 180))"

definition getDistanceFromLatLonInKm :: "'n js_arithmetic \<Rightarrow> 'n \<Rightarrow> 'n \<Rightarrow> 'n \<Rightarrow> 'n \<Rightarrow> 'n" where
  "getDistanceFromLatLonInKm m lat1 lon1 lat2 lon2 =
     (let R = js_num m 6371;
          dLat = deg2rad m (js_sub m lat2 lat1);
          dLon = deg2rad m (js_sub m lon2 lon1);
          a = js_add m
                (js_mul m (Math_sin m (js_div m dLat (js_num m 2)))
                          (Math_sin m (js_div m dLat (js_num m 2))))
                (js_mul m
                   (js_mul m
                      (js_mul m (Math_cos m (deg2rad m lat1)) (Math_cos m (deg2rad m lat2)))
                      (Math_sin m (js_div m dLon (js_num m 2))))
                   (Math_sin m (js_div m dLon (js_num m 2))));
          c = js_mul m (js_num m 2)
                (Math_atan2 m (Math_sqrt m a) (Math_sqrt m (js_sub m (js_num m 1) a)))
      in js_mul m R c)"

text \<open>
  The \<open>for\<close> loop of \<open>calculateDistance\<close>, with its counter \<open>i\<close> and its accumulator
  \<open>total\<close> (written \<open>total'\<close>). The bound \<open>images.length - 1\<close> is \<open>-1\<close> for the empty
  list, so the counter is an integer.
\<close>

function calculateDistance_loop ::
  "'n js_arithmetic \<Rightarrow> ImageMetadata list \<Rightarrow> int \<Rightarrow> 'n \<Rightarrow> 'n" where
  "calculateDistance_loop m images i total' =
     (if i < int (length images) - 1
      then calculateDistance_loop m images (i + 1)
             (js_add m total'
                (getDistanceFromLatLonInKm m
                   (js_num m (latitude (images ! nat i)))
                   (js_num m (longitude (images ! nat i)))
                   (js_num m (latitude (images ! nat (i + 1))))
                   (js_num m (longitude (images ! nat (i + 1))))))
      else total')"
  by pat_completeness auto
termination
  by (relation "measure (\<lambda>(m, images, i, total'). nat (int (length images) - 1 - i))") auto

declare calculateDistance_loop.simps [simp del]

definition calculateDistance :: "'n js_arithmetic \<Rightarrow> ImageMetadata list \<Rightarrow> 'n" where
  "calculateDistance m images = calculateDistance_loop m images 0 (js_num m 0)"

text \<open>
  The sum over the consecutive pairs \<open>(i, i + 1)\<close> of a list of images: the list of the
  pairwise distances, and its sum from left to right, starting from 0.
\<close>

definition consecutive_distances :: "'n js_arithmetic \<Rightarrow> ImageMetadata list \<Rightarrow> 'n list" where
  "consecutive_distances m imgs =
     map (\<lambda>i. getDistanceFromLatLonInKm m
                (js_num m (latitude (imgs ! i))) (js_num m (longitude (imgs ! i)))
                (js_num m (latitude (imgs ! (i + 1)))) (js_num m (longitude (imgs ! (i + 1)))))
       [0..<length imgs - 1]"

definition js_sum :: "'n js_arithmetic \<Rightarrow> 'n list \<Rightarrow> 'n" where
  "js_sum m xs = foldl (js_add m) (js_num m 0) xs"



text \<open>
  The value of the local constant \<open>a\<close> of \<open>getDistanceFromLatLonInKm\<close> in exact
  arithmetic, named for the proofs.
\<close>

definition haversine_a :: "real \<Rightarrow> real \<Rightarrow> real \<Rightarrow> real \<Rightarrow> real" where
  "haversine_a lat1 lon1 lat2 lon2 =
     (let dLat = (lat2 - lat1) * (pi / 180);
          dLon = (lon2 - lon1) * (pi / 180)
      in sin (dLat / 2) * sin (dLat / 2) +
         cos (lat1 * (pi / 180)) * cos (lat2 * (pi / 180)) * sin (dLon / 2) * sin (dLon / 2))"

section \<open>Image upload\<close>

text \<open>A thrown JavaScript \<open>Error\<close>, with its \<open>message\<close>.\<close>

datatype js_error = Error (message: string)

text \<open>
  The object that \<open>exifr.parse(file, true)\<close> resolves to, restricted to the keys that
  the application reads. The keys \<open>latitude\<close> and \<open>longitude\<close> are written
  \<open>md_latitude\<close> and \<open>md_longitude\<close>, the names without prefix being fields of
  \<open>ImageMetadata\<close>.
\<close>

record exif_metadata =
  md_latitude :: "real option"
  md_longitude :: "real option"
  DateTimeOriginal :: "date option"
  CreateDate :: "date option"
  Make :: "string option"
  Model :: "string option"
  GPSAltitude :: "real option"
  ExposureTime :: "real option"
  FNumber :: "real option"
  ISO :: "real option"
  FocalLength :: "real option"

text \<open>
  A \<open>File\<close> as the handlers observe it: its \<open>name\<close>, and the outcome of each call that
  is made on it. \<open>exifr_parse\<close> is the outcome of \<open>await exifr.parse(file, true)\<close>: the
  promise rejects with an error, or resolves to the metadata or to \<open>undefined\<close>.
  \<open>createObjectURL\<close> is the string returned by \<open>URL.createObjectURL(file)\<close>, and
  \<open>file_text\<close> the outcome of \<open>await file.text()\<close>.
\<close>

record File =
  file_name :: string
  exifr_parse :: "js_error + exif_metadata option"
  createObjectURL :: string
  file_text :: "js_error + string"

text \<open>
  Truthiness of \<open>metadata?.latitude\<close>: \<open>undefined\<close> (no metadata, or no such key) and
  the number 0 are falsy.
\<close>

definition truthy_number :: "real option \<Rightarrow> bool" where
  "truthy_number v = (case v of None \<Rightarrow> False | Some x \<Rightarrow> x \<noteq> 0)"

definition optional_chain :: "'a option \<Rightarrow> ('a \<Rightarrow> 'b option) \<Rightarrow> 'b option" where
  "optional_chain obj field = (case obj of None \<Rightarrow> None | Some m \<Rightarrow> field m)"

text \<open>\<open>a || b\<close> on two optional dates: a \<open>Date\<close> object is truthy.\<close>

definition or_date :: "date option \<Rightarrow> date option \<Rightarrow> date option" where
  "or_date a b = (case a of Some d \<Rightarrow> Some d | None \<Rightarrow> b)"

text \<open>The object literal pushed to \<open>newImages\<close>.\<close>

definition newImage :: "File \<Rightarrow> exif_metadata \<Rightarrow> real \<Rightarrow> real \<Rightarrow> ImageMetadata" where
  "newImage f metadata la lo =
     \<lparr>latitude = la,
      longitude = lo,
      timestamp = or_date (DateTimeOriginal metadata) (CreateDate metadata),
      make' = Make metadata,
      model = Model metadata,
      fileName = file_name f,
      url = createObjectURL f,
      altitude = GPSAltitude metadata,
      exposureTime = ExposureTime metadata,
      fNumber = FNumber metadata,
      iso = ISO metadata,
      focalLength = FocalLength metadata\<rparr>"

text \<open>
  The \<open>for (const file of files)\<close> loop inside the \<open>try\<close> block: a rejected
  \<open>exifr.parse\<close> leaves the loop with the error, otherwise the file is pushed to
  \<open>newImages\<close> when both coordinates are truthy.
\<close>

fun uploadLoop :: "File list \<Rightarrow> ImageMetadata list \<Rightarrow> js_error + ImageMetadata list" where
  "uploadLoop [] newImages = Inr newImages"
| "uploadLoop (f # files) newImages =
     (case exifr_parse f of
        Inl err \<Rightarrow> Inl err
      | Inr metadata \<Rightarrow>
          if truthy_number (optional_chain metadata md_latitude)
             \<and> truthy_number (optional_chain metadata md_longitude)
          then (case metadata of
                  Some m \<Rightarrow>
                    (case (md_latitude m, md_longitude m) of
                       (Some la, Some lo) \<Rightarrow> uploadLoop files (newImages @ [newImage f m la lo])
                     | _ \<Rightarrow> uploadLoop files newImages)
                | None \<Rightarrow> uploadLoop files newImages)
          else uploadLoop files newImages)"

section \<open>Photo navigation and the map tab's state\<close>

text \<open>The part of the component state that the map tab's handlers read and write.\<close>

record map_state =
  images :: "ImageMetadata list"
  selectedImageIndex :: int
  loading :: bool
  error :: "string option"

text \<open>
  \<open>handleImageUpload\<close>. \<open>files\<close> is \<open>event.target.files\<close>, \<open>None\<close> when it is
  \<open>null\<close>. The result is the state once the handler has run to its end, the
  \<open>finally\<close> block included.
\<close>

definition handleImageUpload :: "File list option \<Rightarrow> map_state \<Rightarrow> map_state" where
  "handleImageUpload files s =
     (case files of
        None \<Rightarrow> s
      | Some fs \<Rightarrow>
          let s1 = s\<lparr>loading := True, error := None\<rparr>;
              s2 = (case uploadLoop fs [] of
                      Inr newImages \<Rightarrow>
                        if length newImages = 0
                        then s1\<lparr>error := Some
                          ''No GPS data found in the uploaded images. Please ensure your images contain GPS information.''\<rparr>
                        else s1\<lparr>images := newImages, selectedImageIndex := 0\<rparr>
                    | Inl err \<Rightarrow>
                        s1\<lparr>error := Some ''Error processing images. Please try again.''\<rparr>)
          in s2\<lparr>loading := False\<rparr>)"

text \<open>
  \<open>handleNext\<close> and \<open>handlePrevious\<close>: functional updates of \<open>selectedImageIndex\<close>
  with \<open>Math.min\<close> and \<open>Math.max\<close>; \<open>images.length - 1\<close> is \<open>-1\<close> for the empty list.
\<close>

definition handleNext :: "map_state \<Rightarrow> map_state" where
  "handleNext s =
     s\<lparr>selectedImageIndex := min (selectedImageIndex s + 1) (int (length (images s)) - 1)\<rparr>"

definition handlePrevious :: "map_state \<Rightarrow> map_state" where
  "handlePrevious s = s\<lparr>selectedImageIndex := max (selectedImageIndex s - 1) 0\<rparr>"

section \<open>GPX parsing\<close>

text \<open>
  The result of \<open>parseFloat\<close> is a number value. A finite result is the exact value of
  the decimal literal that was read; its rounding to a double is not part of the model of
  \<open>parseFloat\<close>.
\<close>

text \<open>
  The built-in \<open>parseFloat\<close>, after its definition in the language standard: leading
  white space is dropped, then the longest prefix that is a decimal literal is read (an
  optional sign, then \<open>Infinity\<close> or digits with an optional fraction and an optional
  exponent); without such a prefix the result is \<open>NaN\<close>. \<open>digitsValue\<close> is the value of
  a digit string, \<open>exponentValue\<close> the value of an exponent part (0 when there is none),
  \<open>unsignedValue\<close> the value of the literal after the sign. A character is a byte, and
  white space is the white space of ASCII.
\<close>

definition isWhiteSpace :: "char \<Rightarrow> bool" where
  "isWhiteSpace c = (of_char c \<in> {9, 10, 11, 12, 13, 32 :: nat})"

definition isDecimalDigit :: "char \<Rightarrow> bool" where
  "isDecimalDigit c = (48 \<le> (of_char c :: nat) \<and> (of_char c :: nat) \<le> 57)"

definition digitsValue :: "string \<Rightarrow> nat" where
  "digitsValue ds = foldl (\<lambda>n c. 10 * n + (of_char c - 48)) 0 ds"

definition exponentValue :: "string \<Rightarrow> int" where
  "exponentValue r =
     (case r of
        [] \<Rightarrow> 0
      | c # r1 \<Rightarrow>
          if c = CHR ''e'' \<or> c = CHR ''E'' then
            (case r1 of
               [] \<Rightarrow> 0
             | sg # r2 \<Rightarrow>
                 if sg = CHR ''+'' \<and> takeWhile isDecimalDigit r2 \<noteq> []
                   then int (digitsValue (takeWhile isDecimalDigit r2))
                 else if sg = CHR ''-'' \<and> takeWhile isDecimalDigit r2 \<noteq> []
                   then - int (digitsValue (takeWhile isDecimalDigit r2))
                 else int (digitsValue (takeWhile isDecimalDigit r1)))
          else 0)"

definition unsignedValue :: "string \<Rightarrow> js_number" where
  "unsignedValue u =
     (if take 8 u = ''Infinity'' then Infinity
      else
        let ip = takeWhile isDecimalDigit u;
            r1 = dropWhile isDecimalDigit u;
            fp = (case r1 of [] \<Rightarrow> [] | c # r \<Rightarrow>
                    if c = CHR ''.'' then takeWhile isDecimalDigit r else []);
            r2 = (case r1 of [] \<Rightarrow> [] | c # r \<Rightarrow>
                    if c = CHR ''.'' then dropWhile isDecimalDigit r else r1)
        in if ip = [] \<and> fp = [] then NaN
           else
             let m = real (digitsValue (ip @ fp)) / 10 ^ length fp;
                 e = exponentValue r2
             in Num (if 0 \<le> e then m * 10 ^ nat e else m / 10 ^ nat (- e)))"

definition parseFloat :: "string \<Rightarrow> js_number" where
  "parseFloat inputString =
     (let trimmed = dropWhile isWhiteSpace inputString
      in case trimmed of
           [] \<Rightarrow> NaN
         | c # r \<Rightarrow>
             if c = CHR ''-'' then negate (unsignedValue r)
             else if c = CHR ''+'' then unsignedValue r
             else unsignedValue trimmed)"

text \<open>
  The DOM tree that \<open>DOMParser.parseFromString\<close> returns, as far as the application
  reads it: elements with their tag name, attributes and children, and text nodes. A
  document is modelled by its root element. \<open>elements\<close> lists an element and its
  descendant elements in document order (pre-order), which is the order of the collection
  returned by \<open>getElementsByTagName\<close>; on a document that collection ranges over all
  elements (\<open>doc_getElementsByTagName\<close>), on an element over its descendants only.
\<close>

datatype xml_node =
    Element (tagName: string) (attributes: "(string \<times> string) list") (childNodes: "xml_node list")
  | Text (data: string)

fun elements :: "xml_node \<Rightarrow> xml_node list" where
  "elements (Element t as cs) = Element t as cs # concat (map elements cs)"
| "elements (Text d) = []"

fun textContent :: "xml_node \<Rightarrow> string" where
  "textContent (Element t as cs) = concat (map textContent cs)"
| "textContent (Text d) = d"

definition doc_getElementsByTagName :: "xml_node \<Rightarrow> string \<Rightarrow> xml_node list" where
  "doc_getElementsByTagName doc qualifiedName =
     filter (\<lambda>e. tagName e = qualifiedName) (elements doc)"

definition getElementsByTagName :: "xml_node \<Rightarrow> string \<Rightarrow> xml_node list" where
  "getElementsByTagName e qualifiedName =
     filter (\<lambda>d. tagName d = qualifiedName) (concat (map elements (childNodes e)))"

definition getAttribute :: "xml_node \<Rightarrow> string \<Rightarrow> string option" where
  "getAttribute e qualifiedName = map_of (attributes e) qualifiedName"

text \<open>
  \<open>v || d\<close> for \<open>v\<close> the result of \<open>getAttribute\<close> (a string or \<open>null\<close>): both \<open>null\<close>
  and the empty string are falsy.
\<close>

definition or_string :: "string option \<Rightarrow> string \<Rightarrow> string" where
  "or_string v d = (case v of None \<Rightarrow> d | Some s \<Rightarrow> if s = [] then d else s)"

text \<open>
  \<open>parseGPX\<close> of \<open>utils/gpx.ts\<close>: the \<open>for\<close> loop over \<open>trackPoints\<close> that pushes to
  \<open>coordinates\<close>, the function body on a parsed document, and the function itself with
  the browser's \<open>parseFromString(gpxString, 'text/xml')\<close> as a parameter.
\<close>

function parseGPX_loop ::
  "xml_node list \<Rightarrow> nat \<Rightarrow> (js_number \<times> js_number) list \<Rightarrow> (js_number \<times> js_number) list" where
  "parseGPX_loop trackPoints i coordinates =
     (if i < length trackPoints then
        let point = trackPoints ! i;
            lat = parseFloat (or_string (getAttribute point ''lat'') ''0'');
            lon = parseFloat (or_string (getAttribute point ''lon'') ''0'')
        in parseGPX_loop trackPoints (i + 1) (coordinates @ [(lat, lon)])
      else coordinates)"
  by pat_completeness auto
termination
  by (relation "measure (\<lambda>(trackPoints, i, coordinates). length trackPoints - i)") auto

declare parseGPX_loop.simps [simp del]

definition parseGPX_doc :: "xml_node \<Rightarrow> (js_number \<times> js_number) list" where
  "parseGPX_doc gpxDoc =
     (let trackPoints = doc_getElementsByTagName gpxDoc ''trkpt''
      in parseGPX_loop trackPoints 0 [])"

definition parseGPX :: "(string \<Rightarrow> xml_node) \<Rightarrow> string \<Rightarrow> (js_number \<times> js_number) list" where
  "parseGPX parseFromString gpxString = parseGPX_doc (parseFromString gpxString)"

section \<open>GPX viewer\<close>

text \<open>Interface \<open>GPXPoint\<close> and the GPX viewer's part of the component state.\<close>

record GPXPoint =
  lat :: js_number
  lon :: js_number
  name :: "string option"
  time :: "string option"

record gpx_state =
  gpxFile :: "File option"
  gpxPoints :: "GPXPoint list"
  gpxLoading :: bool
  gpxError :: "string option"

text \<open>\<open>s || undefined\<close> on a string: the empty string is falsy.\<close>

definition or_undefined :: "string \<Rightarrow> string option" where
  "or_undefined s = (if s = [] then None else Some s)"

text \<open>\<open>trkpt.getElementsByTagName(n)[0]\<close>: the first match, or \<open>undefined\<close>.\<close>

definition first_element :: "xml_node list \<Rightarrow> xml_node option" where
  "first_element es = (case es of [] \<Rightarrow> None | e # _ \<Rightarrow> Some e)"

text \<open>The \<open>for\<close> loop of \<open>handleGpxUpload\<close> over \<open>trkpts\<close>.\<close>

function gpxPoints_loop :: "xml_node list \<Rightarrow> nat \<Rightarrow> GPXPoint list \<Rightarrow> GPXPoint list" where
  "gpxPoints_loop trkpts i points =
     (if i < length trkpts then
        let trkpt = trkpts ! i;
            lat = parseFloat (or_string (getAttribute trkpt ''lat'') ''0'');
            lon = parseFloat (or_string (getAttribute trkpt ''lon'') ''0'');
            nameElement = first_element (getElementsByTagName trkpt ''name'');
            timeElement = first_element (getElementsByTagName trkpt ''time'');
            name = (case nameElement of Some e \<Rightarrow> or_undefined (textContent e) | None \<Rightarrow> None);
            time = (case timeElement of Some e \<Rightarrow> or_undefined (textContent e) | None \<Rightarrow> None)
        in gpxPoints_loop trkpts (i + 1)
             (points @ [\<lparr>lat = lat, lon = lon, name = name, time = time\<rparr>])
      else points)"
  by pat_completeness auto
termination
  by (relation "measure (\<lambda>(trkpts, i, points). length trkpts - i)") auto

declare gpxPoints_loop.simps [simp del]

text \<open>
  The \<open>try\<close> block of \<open>handleGpxUpload\<close>: \<open>Inl\<close> is the error that reaches the
  \<open>catch\<close> block. \<open>parseFromString\<close> is the browser's
  \<open>DOMParser.parseFromString(text, 'application/xml')\<close>, a parameter of the model.
\<close>

definition gpxUpload_try :: "(string \<Rightarrow> xml_node) \<Rightarrow> File \<Rightarrow> js_error + GPXPoint list" where
  "gpxUpload_try parseFromString f =
     (case file_text f of
        Inl err \<Rightarrow> Inl err
      | Inr text \<Rightarrow>
          let xml = parseFromString text;
              parserError = doc_getElementsByTagName xml ''parsererror''
          in if length parserError > 0 then Inl (Error ''Error parsing GPX file.'')
             else
               let trkpts = doc_getElementsByTagName xml ''trkpt'';
                   points = gpxPoints_loop trkpts 0 []
               in if length points = 0 then Inl (Error ''No track points found in GPX file.'')
                  else Inr points)"

text \<open>\<open>handleGpxUpload\<close>: the state once the handler has run to its end.\<close>

definition handleGpxUpload ::
  "(string \<Rightarrow> xml_node) \<Rightarrow> File list option \<Rightarrow> gpx_state \<Rightarrow> gpx_state" where
  "handleGpxUpload parseFromString files s =
     (case files of
        None \<Rightarrow> s
      | Some [] \<Rightarrow> s
      | Some (f # _) \<Rightarrow>
          let s1 = s\<lparr>gpxFile := Some f, gpxLoading := True, gpxError := None, gpxPoints := []\<rparr>;
              s2 = (case gpxUpload_try parseFromString f of
                      Inr points \<Rightarrow> s1\<lparr>gpxPoints := points\<rparr>
                    | Inl err \<Rightarrow>
                        s1\<lparr>gpxError := Some
                          (if message err = []
                           then ''Error parsing GPX file. Please ensure it is a valid GPX format.''
                           else message err)\<rparr>)
          in s2\<lparr>gpxLoading := False\<rparr>)"

section \<open>Notions of the specification\<close>

text \<open>
  The coordinates of a file whose extracted metadata contains a GPS latitude and a GPS
  longitude, and the entry of the images list that belongs to such a file.
\<close>

definition gps_coordinates :: "File \<Rightarrow> (real \<times> real) option" where
  "gps_coordinates f =
     (case exifr_parse f of
        Inr (Some m) \<Rightarrow>
          (case (md_latitude m, md_longitude m) of
             (Some la, Some lo) \<Rightarrow> Some (la, lo)
           | _ \<Rightarrow> None)
      | _ \<Rightarrow> None)"

definition geotagged_entry :: "File \<Rightarrow> ImageMetadata option" where
  "geotagged_entry f =
     (case exifr_parse f of
        Inr (Some m) \<Rightarrow>
          (case (md_latitude m, md_longitude m) of
             (Some la, Some lo) \<Rightarrow> Some (newImage f m la lo)
           | _ \<Rightarrow> None)
      | _ \<Rightarrow> None)"

text \<open>
  The geotagged entries of a list of files, in file order.
\<close>

definition geotagged_entries :: "File list \<Rightarrow> ImageMetadata list" where
  "geotagged_entries fs = List.map_filter geotagged_entry fs"

text \<open>
  Metadata extraction succeeds for a file when \<open>exifr.parse\<close> does not reject. A file has
  non-zero coordinates when neither its latitude nor its longitude, if it has both, is 0.
\<close>

definition extraction_succeeds :: "File \<Rightarrow> bool" where
  "extraction_succeeds f = (case exifr_parse f of Inr md \<Rightarrow> True | Inl err \<Rightarrow> False)"

definition nonzero_coordinates :: "File \<Rightarrow> bool" where
  "nonzero_coordinates f =
     (case gps_coordinates f of Some (la, lo) \<Rightarrow> la \<noteq> 0 \<and> lo \<noteq> 0 | None \<Rightarrow> True)"

text \<open>
  The entry that the upload loop pushes for a file: the entry of a file both of whose
  coordinates are present and truthy.
\<close>

definition plotted_entry :: "File \<Rightarrow> ImageMetadata option" where
  "plotted_entry f =
     (case exifr_parse f of
        Inr (Some m) \<Rightarrow>
          (case (md_latitude m, md_longitude m) of
             (Some la, Some lo) \<Rightarrow> if la \<noteq> 0 \<and> lo \<noteq> 0 then Some (newImage f m la lo) else None
           | _ \<Rightarrow> None)
      | _ \<Rightarrow> None)"

text \<open>
  The value of a coordinate attribute of a track point, first as the specification states
  it (the parsed value of the attribute, 0 when the attribute is missing), then with the
  empty attribute treated like a missing one.
\<close>

definition attribute_value_stated :: "xml_node \<Rightarrow> string \<Rightarrow> js_number" where
  "attribute_value_stated e a =
     (case getAttribute e a of None \<Rightarrow> Num 0 | Some v \<Rightarrow> parseFloat v)"

definition attribute_value :: "xml_node \<Rightarrow> string \<Rightarrow> js_number" where
  "attribute_value e a =
     (case getAttribute e a of
        None \<Rightarrow> Num 0
      | Some v \<Rightarrow> if v = [] then Num 0 else parseFloat v)"

text \<open>
  One coordinate pair for each \<open>trkpt\<close> element of a document, in document order.
\<close>

definition track_coordinates_stated :: "xml_node \<Rightarrow> (js_number \<times> js_number) list" where
  "track_coordinates_stated doc =
     map (\<lambda>e. (attribute_value_stated e ''lat'', attribute_value_stated e ''lon''))
       (doc_getElementsByTagName doc ''trkpt'')"

definition track_coordinates :: "xml_node \<Rightarrow> (js_number \<times> js_number) list" where
  "track_coordinates doc =
     map (\<lambda>e. (attribute_value e ''lat'', attribute_value e ''lon''))
       (doc_getElementsByTagName doc ''trkpt'')"

text \<open>
  An uploaded GPX file is acceptable when its text can be read and parses to a document
  with no \<open>parsererror\<close> element and at least one \<open>trkpt\<close> element.
\<close>

definition gpx_acceptable :: "(string \<Rightarrow> xml_node) \<Rightarrow> File \<Rightarrow> bool" where
  "gpx_acceptable parseFromString f =
     (case file_text f of
        Inl err \<Rightarrow> False
      | Inr text \<Rightarrow>
          doc_getElementsByTagName (parseFromString text) ''parsererror'' = []
          \<and> doc_getElementsByTagName (parseFromString text) ''trkpt'' \<noteq> [])"

section \<open>Example inputs\<close>

text \<open>
  A geotagged photo (Paris), a file without metadata, a file that \<open>exifr\<close> rejects, two
  images of an earlier upload, and the component's initial state and a later one.
\<close>

definition example_metadata :: exif_metadata where
  "example_metadata =
     \<lparr>md_latitude = Some (488566 / 10000), md_longitude = Some (23522 / 10000),
      DateTimeOriginal = Some 1700000000000, CreateDate = None,
      Make = Some ''Canon'', Model = Some ''EOS 80D'',
      GPSAltitude = Some 35, ExposureTime = None, FNumber = None, ISO = Some 100,
      FocalLength = None\<rparr>"

definition example_photo :: File where
  "example_photo =
     \<lparr>file_name = ''paris.jpg'', exifr_parse = Inr (Some example_metadata),
      createObjectURL = ''blob:paris'', file_text = Inr ''''\<rparr>"

definition example_plain :: File where
  "example_plain =
     \<lparr>file_name = ''scan.png'', exifr_parse = Inr None,
      createObjectURL = ''blob:scan'', file_text = Inr ''''\<rparr>"

definition example_corrupt :: File where
  "example_corrupt =
     \<lparr>file_name = ''notes.txt'', exifr_parse = Inl (Error ''Unknown file format''),
      createObjectURL = ''blob:notes'', file_text = Inr ''hello''\<rparr>"

text \<open>
  A photo taken on the equator: its latitude is 0.
\<close>

definition example_equator :: File where
  "example_equator =
     \<lparr>file_name = ''equator.jpg'',
      exifr_parse = Inr (Some (example_metadata\<lparr>md_latitude := Some 0\<rparr>)),
      createObjectURL = ''blob:equator'', file_text = Inr ''''\<rparr>"

definition example_image :: ImageMetadata where
  "example_image = newImage example_photo example_metadata (488566 / 10000) (23522 / 10000)"

definition example_old_image :: ImageMetadata where
  "example_old_image =
     \<lparr>latitude = 515074 / 10000, longitude = - (1278 / 10000), timestamp = None,
      make' = None, model = None, fileName = ''london.jpg'', url = ''blob:london'',
      altitude = None, exposureTime = None, fNumber = None, iso = None, focalLength = None\<rparr>"

definition example_old_image2 :: ImageMetadata where
  "example_old_image2 =
     \<lparr>latitude = 5252 / 100, longitude = 13405 / 1000, timestamp = Some 1600000000000,
      make' = Some ''Nikon'', model = None, fileName = ''berlin.jpg'', url = ''blob:berlin'',
      altitude = None, exposureTime = None, fNumber = None, iso = None, focalLength = None\<rparr>"

definition initial_map_state :: map_state where
  "initial_map_state =
     \<lparr>images = [], selectedImageIndex = 0, loading = False, error = None\<rparr>"

definition example_state :: map_state where
  "example_state =
     \<lparr>images = [example_old_image, example_old_image2], selectedImageIndex = 1,
      loading = False, error = None\<rparr>"

text \<open>
  Two GPX texts with the documents they parse to, and a parser that knows these two texts
  and answers every other text with a \<open>parsererror\<close> document.
\<close>

definition example_gpx_text :: string where
  \<open>example_gpx_text =
     ''<gpx><trk><trkseg><trkpt lat="48.8566" lon="2.3522"><name>Paris</name></trkpt><trkpt lat="51.5074" lon="-0.1278"/></trkseg></trk></gpx>''\<close>

definition example_gpx_doc :: xml_node where
  "example_gpx_doc =
     Element ''gpx'' []
       [Element ''trk'' []
          [Element ''trkseg'' []
             [Element ''trkpt'' [(''lat'', ''48.8566''), (''lon'', ''2.3522'')]
                [Element ''name'' [] [Text ''Paris'']],
              Element ''trkpt'' [(''lat'', ''51.5074''), (''lon'', ''-0.1278'')] []]]]"

definition example_empty_lat_text :: string where
  \<open>example_empty_lat_text =
     ''<gpx><trk><trkseg><trkpt lat="" lon="2.5"/></trkseg></trk></gpx>''\<close>

definition example_empty_lat_doc :: xml_node where
  "example_empty_lat_doc =
     Element ''gpx'' []
       [Element ''trk'' []
          [Element ''trkseg'' []
             [Element ''trkpt'' [(''lat'', ''''), (''lon'', ''2.5'')] []]]]"

definition example_parsererror_doc :: xml_node where
  "example_parsererror_doc =
     Element ''parsererror'' [] [Text ''XML Parsing Error: syntax error'']"

definition example_parser :: "string \<Rightarrow> xml_node" where
  "example_parser text =
     (if text = example_gpx_text then example_gpx_doc
      else if text = example_empty_lat_text then example_empty_lat_doc
      else example_parsererror_doc)"

definition example_gpx_file :: File where
  "example_gpx_file =
     \<lparr>file_name = ''route.gpx'', exifr_parse = Inl (Error ''Unknown file format''),
      createObjectURL = ''blob:route'', file_text = Inr example_gpx_text\<rparr>"

definition example_bad_gpx_file :: File where
  "example_bad_gpx_file =
     \<lparr>file_name = ''broken.gpx'', exifr_parse = Inl (Error ''Unknown file format''),
      createObjectURL = ''blob:broken'', file_text = Inr ''<gpx><trk>''\<rparr>"

definition initial_gpx_state :: gpx_state where
  "initial_gpx_state =
     \<lparr>gpxFile = None, gpxPoints = [], gpxLoading = False, gpxError = None\<rparr>"

text \<open>
  An engine for the example of the route between two antipodal points: it rounds the exact
  value of each function correctly, and its sines and cosines at the arguments that occur
  in the example are written out.
\<close>

definition extended_atan2 :: "js_number \<Rightarrow> js_number \<Rightarrow> real" where
  "extended_atan2 y x =
     (case (y, x) of
        (Num a, Num b) \<Rightarrow> atan2 a b
      | (Num a, Infinity) \<Rightarrow> 0
      | (Num a, NegInfinity) \<Rightarrow> if 0 \<le> a then pi else - pi
      | (Infinity, Num b) \<Rightarrow> pi / 2
      | (NegInfinity, Num b) \<Rightarrow> - (pi / 2)
      | (Infinity, Infinity) \<Rightarrow> pi / 4
      | (Infinity, NegInfinity) \<Rightarrow> 3 * pi / 4
      | (NegInfinity, Infinity) \<Rightarrow> - (pi / 4)
      | (NegInfinity, NegInfinity) \<Rightarrow> - (3 * pi / 4)
      | _ \<Rightarrow> 0)"

definition example_engine :: math_engine where
  "example_engine =
     \<lparr>engine_sin = (\<lambda>x.
        if x = 1719432786951357 / 1125899906842624 then 8998626396882423 / 9007199254740992
        else if x = - (1719432786951357 / 1125899906842624) then - (8998626396882423 / 9007199254740992)
        else if x = 884279719003555 / 562949953421312 then 1
        else if x = - (884279719003555 / 562949953421312) then - 1
        else round_double (sin x)),
      engine_cos = (\<lambda>x.
        if x = 1719432786951357 / 1125899906842624 \<or> x = - (1719432786951357 / 1125899906842624)
        then 3143108106954505 / 72057594037927936
        else round_double (cos x)),
      engine_sqrt = (\<lambda>x. round_double (sqrt x)),
      engine_atan2 = (\<lambda>y x. round_double (extended_atan2 y x))\<rparr>"

lemmas example_defs =
  example_photo_def example_plain_def example_corrupt_def example_equator_def
  example_metadata_def
  example_image_def example_old_image_def example_old_image2_def example_state_def
  initial_map_state_def

lemmas gpx_example_defs =
  example_gpx_text_def example_gpx_doc_def example_empty_lat_text_def example_empty_lat_doc_def
  example_parsererror_doc_def example_parser_def example_gpx_file_def example_bad_gpx_file_def
  initial_gpx_state_def

lemmas parseFloat_defs =
  parseFloat_def unsignedValue_def negate_def isWhiteSpace_def isDecimalDigit_def
  digitsValue_def exponentValue_def

section \<open>Properties of the sample rate\<close>

text \<open>
  Claim C3. The sample rate is the stated table on zoom levels (1 from zoom 18 on, 6 on
  [17, 18), 12 on [16, 17), 18 on [15, 16), 24 on [14, 15), 30 on [13, 14), 40 below 13),
  and it never grows when the zoom level grows.
\<close>

theorem calculateSampleRate_table:
  "calculateSampleRate zoom =
     (if zoom \<ge> 18 then 1
      else if 17 \<le> zoom \<and> zoom < 18 then 6
      else if 16 \<le> zoom \<and> zoom < 17 then 12
      else if 15 \<le> zoom \<and> zoom < 16 then 18
      else if 14 \<le> zoom \<and> zoom < 15 then 24
      else if 13 \<le> zoom \<and> zoom < 14 then 30
      else 40)
   \<and> (\<forall>z1 z2. z1 \<le> z2 \<longrightarrow> calculateSampleRate z2 \<le> calculateSampleRate z1)"
  by (simp add: calculateSampleRate_def)

theorem calculateSampleRate_table_witness:
  "calculateSampleRate (33 / 2) = 12
   \<and> (27 / 2 :: real) \<le> 33 / 2
   \<and> calculateSampleRate (33 / 2) \<le> calculateSampleRate (27 / 2)"
proof -
  have le: "(27 / 2 :: real) \<le> 33 / 2" by simp
  have tab: "calculateSampleRate (33 / 2) = 12"
    using calculateSampleRate_table [of "33 / 2"] by simp
  have mono: "calculateSampleRate (33 / 2) \<le> calculateSampleRate (27 / 2)"
    using calculateSampleRate_table [of 0] le by blast
  from tab le mono show ?thesis by simp
qed

section \<open>Properties of photo navigation\<close>

text \<open>
  Claim C8. With a non-empty image list and the selected index within
  [0, images.length - 1], the index is still in that range after \<open>handleNext\<close> and after
  \<open>handlePrevious\<close>; \<open>handleNext\<close> on the last index and \<open>handlePrevious\<close> on index 0
  change nothing.
\<close>

theorem navigation_in_bounds:
  assumes "images s \<noteq> []"
    and "0 \<le> selectedImageIndex s"
    and "selectedImageIndex s \<le> int (length (images s)) - 1"
  shows "0 \<le> selectedImageIndex (handleNext s)
       \<and> selectedImageIndex (handleNext s) \<le> int (length (images (handleNext s))) - 1
       \<and> 0 \<le> selectedImageIndex (handlePrevious s)
       \<and> selectedImageIndex (handlePrevious s) \<le> int (length (images (handlePrevious s))) - 1
       \<and> (selectedImageIndex s = int (length (images s)) - 1 \<longrightarrow> handleNext s = s)
       \<and> (selectedImageIndex s = 0 \<longrightarrow> handlePrevious s = s)"
  using assms by (auto simp: handleNext_def handlePrevious_def)

text \<open>
  The hypotheses hold in \<open>example_state\<close>, where the second of two images is selected.
\<close>

theorem navigation_in_bounds_witness:
  "images example_state \<noteq> []
   \<and> 0 \<le> selectedImageIndex example_state
   \<and> selectedImageIndex example_state \<le> int (length (images example_state)) - 1
   \<and> selectedImageIndex (handlePrevious example_state) = 0
   \<and> 0 \<le> selectedImageIndex (handleNext example_state)
   \<and> handleNext example_state = example_state"
proof -
  have h1: "images example_state \<noteq> []" by (simp add: example_state_def)
  have h2: "0 \<le> selectedImageIndex example_state" by (simp add: example_state_def)
  have h3: "selectedImageIndex example_state \<le> int (length (images example_state)) - 1"
    by (simp add: example_state_def)
  have last: "selectedImageIndex example_state = int (length (images example_state)) - 1"
    by (simp add: example_state_def)
  have prev: "selectedImageIndex (handlePrevious example_state) = 0"
    by (simp add: example_state_def handlePrevious_def)
  from navigation_in_bounds [OF h1 h2 h3] last h1 h2 h3 prev show ?thesis by blast
qed

section \<open>Properties of the route length\<close>

text \<open>
  In every arithmetic the loop adds the pairwise distances of the consecutive pairs from
  index \<open>i\<close> on to its accumulator, from left to right.
\<close>

lemma calculateDistance_loop_fold:
  "0 \<le> i \<Longrightarrow> calculateDistance_loop m imgs i total' =
     foldl (js_add m) total'
       (map (\<lambda>k. getDistanceFromLatLonInKm m
                (js_num m (latitude (imgs ! k))) (js_num m (longitude (imgs ! k)))
                (js_num m (latitude (imgs ! (k + 1)))) (js_num m (longitude (imgs ! (k + 1)))))
          [nat i..<length imgs - 1])"
proof (induction m imgs i total' rule: calculateDistance_loop.induct)
  case (1 m imgs i total')
  show ?case
  proof (cases "i < int (length imgs) - 1")
    case True
    then have lt: "nat i < length imgs - 1" using "1.prems" by linarith
    have n: "nat (i + 1) = Suc (nat i)" using "1.prems" by simp
    show ?thesis
      using "1.IH" [OF True] "1.prems" True lt
      by (subst calculateDistance_loop.simps) (simp add: n upt_conv_Cons)
  next
    case False
    then have "length imgs - 1 \<le> nat i" using "1.prems" by linarith
    with False show ?thesis by (subst calculateDistance_loop.simps) simp
  qed
qed

lemma calculateDistance_sum:
  "calculateDistance m imgs = js_sum m (consecutive_distances m imgs)"
  using calculateDistance_loop_fold [of 0 m imgs "js_num m 0"]
  by (simp add: calculateDistance_def js_sum_def consecutive_distances_def)

lemma calculateDistance_short: "length imgs < 2 \<Longrightarrow> calculateDistance m imgs = js_num m 0"
  by (simp add: calculateDistance_sum js_sum_def consecutive_distances_def)







text \<open>
  The haversine term \<open>a\<close> lies in \<open>[0, 1]\<close> in exact arithmetic, so there the distance is
  symmetric, not negative, and 0 between a point and itself.
\<close>

lemma abs_mult_le_half: "\<bar>x * y\<bar> \<le> (x\<^sup>2 + y\<^sup>2) / (2::real)"
proof -
  have "0 \<le> (\<bar>x\<bar> - \<bar>y\<bar>)\<^sup>2" by simp
  also have "(\<bar>x\<bar> - \<bar>y\<bar>)\<^sup>2 = x\<^sup>2 + y\<^sup>2 - 2 * \<bar>x * y\<bar>"
    by (simp add: power2_diff abs_mult)
  finally show ?thesis by simp
qed

lemma a_range:
  fixes p q l :: real
  defines "a \<equiv> sin ((q - p) / 2) * sin ((q - p) / 2) + cos p * cos q * sin (l / 2) * sin (l / 2)"
  shows "0 \<le> a \<and> a \<le> 1"
proof -
  define h where "h = (sin (l / 2))\<^sup>2"
  define u where "u = 1 - 2 * h"
  have h0: "0 \<le> h" by (simp add: h_def)
  have h1: "h \<le> 1" using abs_sin_le_one [of "l / 2"] by (simp add: h_def abs_square_le_1)
  have u1: "\<bar>u\<bar> \<le> 1" using h0 h1 by (simp add: u_def abs_le_iff)
  have e: "2 * ((q - p) / 2) = q - p" by simp
  have sq: "(sin ((q - p) / 2))\<^sup>2 = (1 - cos (q - p)) / 2"
    using cos_double_sin [of "(q - p) / 2", unfolded e] by simp
  have a_alt: "a = (sin ((q - p) / 2))\<^sup>2 + cos p * cos q * h"
    by (simp add: a_def h_def power2_eq_square mult.assoc)
  have two_a: "2 * a = 1 - (sin p * sin q + cos p * cos q * u)"
    unfolding a_alt sq u_def by (simp add: cos_diff field_simps)
  have b1: "\<bar>sin p * sin q\<bar> \<le> ((sin p)\<^sup>2 + (sin q)\<^sup>2) / 2"
    by (rule abs_mult_le_half)
  have "\<bar>cos p * cos q * u\<bar> = \<bar>cos p * cos q\<bar> * \<bar>u\<bar>" by (simp add: abs_mult)
  also have "\<dots> \<le> \<bar>cos p * cos q\<bar> * 1"
    by (rule mult_left_mono [OF u1]) simp
  also have "\<dots> \<le> ((cos p)\<^sup>2 + (cos q)\<^sup>2) / 2"
    using abs_mult_le_half [of "cos p" "cos q"] by simp
  finally have b2: "\<bar>cos p * cos q * u\<bar> \<le> ((cos p)\<^sup>2 + (cos q)\<^sup>2) / 2" .
  have "((sin p)\<^sup>2 + (sin q)\<^sup>2) / 2 + ((cos p)\<^sup>2 + (cos q)\<^sup>2) / 2
      = (((sin p)\<^sup>2 + (cos p)\<^sup>2) + ((sin q)\<^sup>2 + (cos q)\<^sup>2)) / 2"
    by (simp only: add_divide_distrib add_ac)
  also have "\<dots> = 1" by simp
  finally have one:
    "((sin p)\<^sup>2 + (sin q)\<^sup>2) / 2 + ((cos p)\<^sup>2 + (cos q)\<^sup>2) / 2 = 1" .
  have "\<bar>sin p * sin q + cos p * cos q * u\<bar> \<le> \<bar>sin p * sin q\<bar> + \<bar>cos p * cos q * u\<bar>"
    by (rule abs_triangle_ineq)
  also have "\<dots> \<le> 1" using b1 b2 one by linarith
  finally have "\<bar>sin p * sin q + cos p * cos q * u\<bar> \<le> 1" .
  with two_a show ?thesis by (simp add: abs_le_iff)
qed

lemma haversine_a_range:
  "0 \<le> haversine_a lat1 lon1 lat2 lon2 \<and> haversine_a lat1 lon1 lat2 lon2 \<le> 1"
proof -
  have d: "(lat2 - lat1) * (pi / 180) = lat2 * (pi / 180) - lat1 * (pi / 180)"
    by (simp only: left_diff_distrib)
  show ?thesis
    unfolding haversine_a_def Let_def d
    by (rule a_range)
qed

lemma exact_distance_via_a:
  "getDistanceFromLatLonInKm exact_arithmetic lat1 lon1 lat2 lon2 =
     6371 * (2 * atan2 (sqrt (haversine_a lat1 lon1 lat2 lon2))
                       (sqrt (1 - haversine_a lat1 lon1 lat2 lon2)))"
  by (simp add: getDistanceFromLatLonInKm_def deg2rad_def exact_arithmetic_def haversine_a_def
        Let_def)

lemma atan2_nonneg: "0 \<le> y \<Longrightarrow> 0 \<le> x \<Longrightarrow> 0 \<le> atan2 y x"
  by (auto simp: atan2_def)

lemma haversine_a_sym: "haversine_a lat1 lon1 lat2 lon2 = haversine_a lat2 lon2 lat1 lon1"
proof -
  have s: "sin ((x - y) * (pi / 180) / 2) * sin ((x - y) * (pi / 180) / 2)
         = sin ((y - x) * (pi / 180) / 2) * sin ((y - x) * (pi / 180) / 2)" for x y :: real
  proof -
    have "(x - y) * (pi / 180) / 2 = - ((y - x) * (pi / 180) / 2)" by (simp add: field_simps)
    then show ?thesis by simp
  qed
  show ?thesis
    unfolding haversine_a_def Let_def
    using s [of lat2 lat1] s [of lon2 lon1] by (simp add: mult.assoc mult.left_commute)
qed

lemma haversine_a_same: "haversine_a la lo la lo = 0"
  by (simp add: haversine_a_def)

lemma exact_distance_properties:
  "getDistanceFromLatLonInKm exact_arithmetic lat1 lon1 lat2 lon2
     = getDistanceFromLatLonInKm exact_arithmetic lat2 lon2 lat1 lon1
   \<and> 0 \<le> getDistanceFromLatLonInKm exact_arithmetic lat1 lon1 lat2 lon2
   \<and> getDistanceFromLatLonInKm exact_arithmetic la lo la lo = 0"
proof (intro conjI)
  show "getDistanceFromLatLonInKm exact_arithmetic lat1 lon1 lat2 lon2
     = getDistanceFromLatLonInKm exact_arithmetic lat2 lon2 lat1 lon1"
    by (simp only: exact_distance_via_a haversine_a_sym [of lat1 lon1 lat2 lon2])
  show "0 \<le> getDistanceFromLatLonInKm exact_arithmetic lat1 lon1 lat2 lon2"
    using haversine_a_range [of lat1 lon1 lat2 lon2]
    by (simp add: exact_distance_via_a atan2_nonneg)
  show "getDistanceFromLatLonInKm exact_arithmetic la lo la lo = 0"
    by (simp add: exact_distance_via_a haversine_a_same atan2_def)
qed

text \<open>
  Rounding to a double, evaluated: within the binade of \<open>x\<close> the nearest double is the
  nearest multiple of the last place.
\<close>

lemma double_lsb_eq:
  assumes lo: "2 powi (e + 52) \<le> \<bar>x\<bar>" and hi: "\<bar>x\<bar> < 2 powi (e + 53)" and e: "- 1074 \<le> e"
  shows "double_lsb x = e"
proof -
  define k where "k = nat (e + 1126)"
  have k: "int k = e + 1126" using e by (simp add: k_def)
  have p1: "(2::real) powi (e + 52) * 2 ^ 1074 = 2 ^ k"
  proof -
    have "(2::real) powi (e + 52) * 2 ^ 1074 = 2 powi (e + 52) * 2 powi 1074" by simp
    also have "\<dots> = 2 powi (e + 52 + 1074)" by (simp add: power_int_add)
    also have "\<dots> = 2 powi (int k)" using k by (simp add: add.commute)
    finally show ?thesis by simp
  qed
  have p2: "(2::real) powi (e + 53) * 2 ^ 1074 = 2 ^ Suc k"
  proof -
    have "(2::real) powi (e + 53) * 2 ^ 1074 = 2 powi (e + 53) * 2 powi 1074" by simp
    also have "\<dots> = 2 powi (e + 53 + 1074)" by (simp add: power_int_add)
    also have "\<dots> = 2 powi (int (Suc k))" using k by (simp add: add.commute)
    finally show ?thesis by (simp only: power_int_of_nat)
  qed
  define y where "y = \<bar>x\<bar> * 2 ^ 1074"
  have ylo: "2 ^ k \<le> y" using lo p1 unfolding y_def
    by (metis mult_right_mono zero_le_numeral zero_le_power)
  have yhi: "y < 2 ^ Suc k" using hi p2 unfolding y_def
    by (metis mult_strict_right_mono zero_less_numeral zero_less_power)
  have flo: "(2::int) ^ k \<le> \<lfloor>y\<rfloor>" using ylo by (simp add: le_floor_iff)
  have fhi: "\<lfloor>y\<rfloor> < (2::int) ^ Suc k" using yhi by (simp add: floor_less_iff)
  have n1: "nat (1 + int k) = Suc k" by linarith
  have "bitlen \<lfloor>y\<rfloor> = 1 + int k"
  proof (rule antisym)
    show "bitlen \<lfloor>y\<rfloor> \<le> 1 + int k" using fhi by (simp add: bitlen_le_iff_power n1)
    show "1 + int k \<le> bitlen \<lfloor>y\<rfloor>" using flo by (simp add: bitlen_ge_iff_power n1)
  qed
  then show ?thesis using k e by (simp add: double_lsb_def y_def)
qed

lemma round_double_eval:
  assumes "2 powi (e + 52) \<le> \<bar>x\<bar>" and "\<bar>x\<bar> < 2 powi (e + 53)" and "- 1074 \<le> e"
  shows "round_double x = of_int (round_half_even (x / 2 powi e)) * 2 powi e"
  by (simp add: round_double_def double_lsb_eq [OF assms])

lemma to_double_eval:
  assumes "2 powi (e + 52) \<le> \<bar>x\<bar>" and "\<bar>x\<bar> < 2 powi (e + 53)" and "- 1074 \<le> e"
    and "v = of_int (round_half_even (x / 2 powi e)) * 2 powi e"
    and "- (2 ^ 1024) < v" and "v < 2 ^ 1024"
  shows "to_double x = Num v"
  using assms(4-6) by (simp add: to_double_def round_double_eval [OF assms(1-3)])

lemma double_add_Num: "double_add (Num a) (Num b) = to_double (a + b)"
  by (simp add: double_add_def)

lemma double_sub_Num: "double_sub (Num a) (Num b) = to_double (a - b)"
  by (simp add: double_sub_def double_add_def negate_def)

lemma double_mul_Num: "double_mul (Num a) (Num b) = to_double (a * b)"
  by (simp add: double_mul_def)

lemma double_div_Num: "double_div (Num a) (Num (numeral b)) = to_double (a / numeral b)"
  by (simp add: double_div_def)

lemma double_mul_NaN: "double_mul x NaN = NaN"
  by (simp add: double_mul_def)

lemma double_atan2_NaN: "double_atan2 e y NaN = NaN"
  by (simp add: double_atan2_def)

text \<open>
  Claim C9 says that the pairwise distance is symmetric, not negative, and 0 between a
  point and itself, for all arguments. The code breaks it in double arithmetic: between the
  antipodal points (-87.5, -179.5) and (87.5, 0.5) the distance is \<open>NaN\<close> in both
  argument orders, which is neither equal to itself under \<open>===\<close> nor at least 0. The
  rounded sum \<open>a\<close> is \<open>1 + 2\<^sup>-\<^sup>5\<^sup>2\<close>, so \<open>1 - a\<close> is negative and \<open>Math.sqrt(1 - a)\<close> is
  \<open>NaN\<close>; the code does not clamp \<open>a\<close> to \<open>[0, 1]\<close>.
\<close>

theorem distance_of_antipodes_is_NaN:
  "getDistanceFromLatLonInKm (double_arithmetic example_engine)
     (Num (- (175 / 2))) (Num (- (359 / 2))) (Num (175 / 2)) (Num (1 / 2)) = NaN
   \<and> getDistanceFromLatLonInKm (double_arithmetic example_engine)
     (Num (175 / 2)) (Num (1 / 2)) (Num (- (175 / 2))) (Num (- (359 / 2))) = NaN"
proof -
  have n180: "to_double 180 = Num 180"
    by (rule to_double_eval [of "- 45"]) (simp_all add: round_half_even_def)
  have n2: "to_double 2 = Num 2"
    by (rule to_double_eval [of "- 51"]) (simp_all add: round_half_even_def)
  have n1: "to_double 1 = Num 1"
    by (rule to_double_eval [of "- 52"]) (simp_all add: round_half_even_def)
  have dLat_deg: "double_sub (Num (175 / 2)) (Num (- (175 / 2))) = Num 175"
    by (simp only: double_sub_Num) (rule to_double_eval [of "- 45"], simp_all add: round_half_even_def)
  have dLon_deg: "double_sub (Num (1 / 2)) (Num (- (359 / 2))) = Num 180"
    by (simp only: double_sub_Num) (rule to_double_eval [of "- 45"], simp_all add: round_half_even_def)
  have k: "double_div (Num (884279719003555 / 281474976710656)) (Num 180) = Num (5030569068109113 / 288230376151711744)"
    by (simp only: double_div_Num) (rule to_double_eval [of "- 58"], simp_all add: round_half_even_def)
  have dLat: "double_mul (Num 175) (Num (5030569068109113 / 288230376151711744)) = Num (1719432786951357 / 562949953421312)"
    by (simp only: double_mul_Num) (rule to_double_eval [of "- 51"], simp_all add: round_half_even_def)
  have dLon: "double_mul (Num 180) (Num (5030569068109113 / 288230376151711744)) = Num (884279719003555 / 281474976710656)"
    by (simp only: double_mul_Num) (rule to_double_eval [of "- 51"], simp_all add: round_half_even_def)
  have hLat: "double_div (Num (1719432786951357 / 562949953421312)) (Num 2) = Num (1719432786951357 / 1125899906842624)"
    by (simp only: double_div_Num) (rule to_double_eval [of "- 52"], simp_all add: round_half_even_def)
  have hLon: "double_div (Num (884279719003555 / 281474976710656)) (Num 2) = Num (884279719003555 / 562949953421312)"
    by (simp only: double_div_Num) (rule to_double_eval [of "- 52"], simp_all add: round_half_even_def)
  have sLat: "double_sin example_engine (Num (1719432786951357 / 1125899906842624)) = Num (8998626396882423 / 9007199254740992)"
    by (simp add: double_sin_def example_engine_def)
  have sLon: "double_sin example_engine (Num (884279719003555 / 562949953421312)) = Num 1"
    by (simp add: double_sin_def example_engine_def)
  have sLat2: "double_mul (Num (8998626396882423 / 9007199254740992)) (Num (8998626396882423 / 9007199254740992)) = Num (4495030849242473 / 4503599627370496)"
    by (simp only: double_mul_Num) (rule to_double_eval [of "- 53"], simp_all add: round_half_even_def)
  have r1: "double_mul (Num (- (175 / 2))) (Num (5030569068109113 / 288230376151711744)) = Num (- (1719432786951357 / 1125899906842624))"
    by (simp only: double_mul_Num) (rule to_double_eval [of "- 52"], simp_all add: round_half_even_def)
  have r2: "double_mul (Num (175 / 2)) (Num (5030569068109113 / 288230376151711744)) = Num (1719432786951357 / 1125899906842624)"
    by (simp only: double_mul_Num) (rule to_double_eval [of "- 52"], simp_all add: round_half_even_def)
  have c1: "double_cos example_engine (Num (- (1719432786951357 / 1125899906842624))) = Num (3143108106954505 / 72057594037927936)"
    by (simp add: double_cos_def example_engine_def)
  have c2: "double_cos example_engine (Num (1719432786951357 / 1125899906842624)) = Num (3143108106954505 / 72057594037927936)"
    by (simp add: double_cos_def example_engine_def)
  have cc: "double_mul (Num (3143108106954505 / 72057594037927936)) (Num (3143108106954505 / 72057594037927936)) = Num (8774428803096097 / 4611686018427387904)"
    by (simp only: double_mul_Num) (rule to_double_eval [of "- 62"], simp_all add: round_half_even_def)
  have ccs: "double_mul (Num (8774428803096097 / 4611686018427387904)) (Num 1) = Num (8774428803096097 / 4611686018427387904)"
    by (simp only: double_mul_Num) (rule to_double_eval [of "- 62"], simp_all add: round_half_even_def)
  have a: "double_add (Num (4495030849242473 / 4503599627370496)) (Num (8774428803096097 / 4611686018427387904)) = Num (4503599627370497 / 4503599627370496)"
    by (simp only: double_add_Num) (rule to_double_eval [of "- 52"], simp_all add: round_half_even_def)
  have om: "double_sub (Num 1) (Num (4503599627370497 / 4503599627370496)) = Num (- (1 / 4503599627370496))"
    by (simp only: double_sub_Num) (rule to_double_eval [of "- 104"], simp_all add: round_half_even_def)
  have root: "double_sqrt example_engine (Num (- (1 / 4503599627370496))) = NaN"
    by (simp add: double_sqrt_def)
  have dLat_deg': "double_sub (Num (- (175 / 2))) (Num (175 / 2)) = Num (- 175)"
    by (simp only: double_sub_Num) (rule to_double_eval [of "- 45"], simp_all add: round_half_even_def)
  have dLon_deg': "double_sub (Num (- (359 / 2))) (Num (1 / 2)) = Num (- 180)"
    by (simp only: double_sub_Num) (rule to_double_eval [of "- 45"], simp_all add: round_half_even_def)
  have dLat': "double_mul (Num (- 175)) (Num (5030569068109113 / 288230376151711744)) = Num (- (1719432786951357 / 562949953421312))"
    by (simp only: double_mul_Num) (rule to_double_eval [of "- 51"], simp_all add: round_half_even_def)
  have dLon': "double_mul (Num (- 180)) (Num (5030569068109113 / 288230376151711744)) = Num (- (884279719003555 / 281474976710656))"
    by (simp only: double_mul_Num) (rule to_double_eval [of "- 51"], simp_all add: round_half_even_def)
  have hLat': "double_div (Num (- (1719432786951357 / 562949953421312))) (Num 2) = Num (- (1719432786951357 / 1125899906842624))"
    by (simp only: double_div_Num) (rule to_double_eval [of "- 52"], simp_all add: round_half_even_def)
  have hLon': "double_div (Num (- (884279719003555 / 281474976710656))) (Num 2) = Num (- (884279719003555 / 562949953421312))"
    by (simp only: double_div_Num) (rule to_double_eval [of "- 52"], simp_all add: round_half_even_def)
  have sLat': "double_sin example_engine (Num (- (1719432786951357 / 1125899906842624))) = Num (- (8998626396882423 / 9007199254740992))"
    by (simp add: double_sin_def example_engine_def)
  have sLon': "double_sin example_engine (Num (- (884279719003555 / 562949953421312))) = Num (- 1)"
    by (simp add: double_sin_def example_engine_def)
  have sLat2': "double_mul (Num (- (8998626396882423 / 9007199254740992))) (Num (- (8998626396882423 / 9007199254740992))) = Num (4495030849242473 / 4503599627370496)"
    by (simp only: double_mul_Num) (rule to_double_eval [of "- 53"], simp_all add: round_half_even_def)
  have ccs': "double_mul (Num (8774428803096097 / 4611686018427387904)) (Num (- 1)) = Num (- (8774428803096097 / 4611686018427387904))"
    by (simp only: double_mul_Num) (rule to_double_eval [of "- 62"], simp_all add: round_half_even_def)
  have ccss': "double_mul (Num (- (8774428803096097 / 4611686018427387904))) (Num (- 1)) = Num (8774428803096097 / 4611686018427387904)"
    by (simp only: double_mul_Num) (rule to_double_eval [of "- 62"], simp_all add: round_half_even_def)
  show ?thesis
    by (simp only: getDistanceFromLatLonInKm_def deg2rad_def Let_def double_arithmetic_def
          js_arithmetic.select_convs n180 n2 n1 dLat_deg dLon_deg k dLat dLon hLat hLon sLat sLon sLat2 r1 r2 c1 c2 cc ccs a om root dLat_deg' dLon_deg' dLat' dLon' hLat' hLon' sLat' sLon' sLat2' ccs' ccss'
          double_atan2_NaN double_mul_NaN)
qed

section \<open>Properties of image upload\<close>

lemma geotagged_entry_coordinates:
  "geotagged_entry f = Some img \<Longrightarrow>
     gps_coordinates f = Some (latitude img, longitude img) \<and> fileName img = file_name f"
  by (auto simp: geotagged_entry_def gps_coordinates_def newImage_def
           split: sum.splits option.splits)

lemma gps_coordinates_entry:
  "gps_coordinates f = Some (la, lo) \<Longrightarrow>
     \<exists>img. geotagged_entry f = Some img \<and> latitude img = la \<and> longitude img = lo
           \<and> fileName img = file_name f"
  by (auto simp: geotagged_entry_def gps_coordinates_def newImage_def
           split: sum.splits option.splits)

lemma geotagged_entry_None: "geotagged_entry f = None \<longleftrightarrow> gps_coordinates f = None"
  by (auto simp: geotagged_entry_def gps_coordinates_def split: sum.splits option.splits)

lemma geotagged_entries_set:
  "set (geotagged_entries fs) = {img. \<exists>f\<in>set fs. geotagged_entry f = Some img}"
  by (force simp: geotagged_entries_def map_filter_def)

text \<open>
  One round of the upload loop: the error leaves it, the file is skipped, or it is pushed.
\<close>

lemma uploadLoop_step_fail:
  "exifr_parse f = Inl err \<Longrightarrow> uploadLoop (f # fs) acc = Inl err"
  by simp

lemma uploadLoop_step_skip:
  "exifr_parse f = Inr md \<Longrightarrow> gps_coordinates f = None \<Longrightarrow>
     uploadLoop (f # fs) acc = uploadLoop fs acc"
  by (auto simp: gps_coordinates_def truthy_number_def optional_chain_def
           split: option.splits)

lemma uploadLoop_step_push:
  "exifr_parse f = Inr md \<Longrightarrow> geotagged_entry f = Some img \<Longrightarrow> nonzero_coordinates f \<Longrightarrow>
     uploadLoop (f # fs) acc = uploadLoop fs (acc @ [img])"
  by (auto simp: geotagged_entry_def gps_coordinates_def nonzero_coordinates_def
                 truthy_number_def optional_chain_def
           split: option.splits)

lemma uploadLoop_step_any:
  "exifr_parse f = Inr md \<Longrightarrow>
     uploadLoop (f # fs) acc = uploadLoop fs acc
     \<or> (\<exists>img. geotagged_entry f = Some img \<and> uploadLoop (f # fs) acc = uploadLoop fs (acc @ [img]))"
  by (auto simp: geotagged_entry_def truthy_number_def optional_chain_def
           split: option.splits)

text \<open>
  The loop as a whole.
\<close>

lemma uploadLoop_fails:
  "\<exists>f\<in>set fs. \<not> extraction_succeeds f \<Longrightarrow> \<exists>err. uploadLoop fs acc = Inl err"
proof (induction fs arbitrary: acc)
  case Nil
  then show ?case by simp
next
  case (Cons f fs)
  show ?case
  proof (cases "exifr_parse f")
    case (Inl err)
    then show ?thesis by simp
  next
    case (Inr md)
    then have "extraction_succeeds f" by (simp add: extraction_succeeds_def)
    with Cons.prems have rest: "\<exists>g\<in>set fs. \<not> extraction_succeeds g" by auto
    from uploadLoop_step_any [OF Inr, of fs acc] Cons.IH [OF rest]
    show ?thesis by metis
  qed
qed

lemma uploadLoop_entries:
  "uploadLoop fs acc = Inr newImages \<Longrightarrow>
     \<exists>added. newImages = acc @ added
            \<and> (\<forall>img\<in>set added. \<exists>f\<in>set fs. geotagged_entry f = Some img)"
proof (induction fs arbitrary: acc)
  case Nil
  then show ?case by simp
next
  case (Cons f fs)
  show ?case
  proof (cases "exifr_parse f")
    case (Inl err)
    with Cons.prems show ?thesis by simp
  next
    case (Inr md)
    from uploadLoop_step_any [OF Inr, of fs acc]
    consider (skip) "uploadLoop (f # fs) acc = uploadLoop fs acc"
      | (push) img where "geotagged_entry f = Some img"
          "uploadLoop (f # fs) acc = uploadLoop fs (acc @ [img])"
      by blast
    then show ?thesis
    proof cases
      case skip
      with Cons.prems have "uploadLoop fs acc = Inr newImages" by simp
      from Cons.IH [OF this] show ?thesis by auto
    next
      case push
      with Cons.prems have "uploadLoop fs (acc @ [img]) = Inr newImages" by simp
      from Cons.IH [OF this] obtain added where
        a: "newImages = (acc @ [img]) @ added"
           "\<forall>i\<in>set added. \<exists>g\<in>set fs. geotagged_entry g = Some i" by blast
      have "newImages = acc @ (img # added)" using a(1) by simp
      moreover have "\<forall>i\<in>set (img # added). \<exists>g\<in>set (f # fs). geotagged_entry g = Some i"
        using a(2) push(1) by auto
      ultimately show ?thesis by blast
    qed
  qed
qed

lemma uploadLoop_no_gps:
  "\<forall>f\<in>set fs. gps_coordinates f = None \<Longrightarrow>
     (\<exists>err. uploadLoop fs acc = Inl err) \<or> uploadLoop fs acc = Inr acc"
proof (induction fs arbitrary: acc)
  case Nil
  then show ?case by simp
next
  case (Cons f fs)
  show ?case
  proof (cases "exifr_parse f")
    case (Inl err)
    then show ?thesis by simp
  next
    case (Inr md)
    from Cons.prems have "gps_coordinates f = None" by simp
    from uploadLoop_step_skip [OF Inr this] Cons.IH [of acc] Cons.prems
    show ?thesis by simp
  qed
qed

lemma uploadLoop_all:
  "\<forall>f\<in>set fs. extraction_succeeds f \<and> nonzero_coordinates f \<Longrightarrow>
     uploadLoop fs acc = Inr (acc @ geotagged_entries fs)"
proof (induction fs arbitrary: acc)
  case Nil
  then show ?case by (simp add: geotagged_entries_def map_filter_simps)
next
  case (Cons f fs)
  from Cons.prems obtain md where md: "exifr_parse f = Inr md"
    by (auto simp: extraction_succeeds_def split: sum.splits)
  from Cons.prems have nz: "nonzero_coordinates f" by simp
  from Cons.prems have rest: "\<forall>g\<in>set fs. extraction_succeeds g \<and> nonzero_coordinates g" by simp
  show ?case
  proof (cases "geotagged_entry f")
    case None
    then have "gps_coordinates f = None" by (simp add: geotagged_entry_None)
    from uploadLoop_step_skip [OF md this] Cons.IH [OF rest, of acc] None
    show ?thesis by (simp add: geotagged_entries_def map_filter_simps)
  next
    case (Some img)
    from uploadLoop_step_push [OF md Some nz] Cons.IH [OF rest, of "acc @ [img]"] Some
    show ?thesis by (simp add: geotagged_entries_def map_filter_simps)
  qed
qed

text \<open>
  When no extraction fails, the loop pushes the entry of every file whose coordinates are
  both truthy, whatever the other files are.
\<close>

lemma uploadLoop_step_plotted:
  "exifr_parse f = Inr md \<Longrightarrow>
     uploadLoop (f # fs) acc =
       uploadLoop fs (case plotted_entry f of Some img \<Rightarrow> acc @ [img] | None \<Rightarrow> acc)"
  by (auto simp: plotted_entry_def truthy_number_def optional_chain_def split: option.splits)

lemma uploadLoop_plotted:
  "\<forall>f\<in>set fs. extraction_succeeds f \<Longrightarrow>
     uploadLoop fs acc = Inr (acc @ List.map_filter plotted_entry fs)"
proof (induction fs arbitrary: acc)
  case Nil
  then show ?case by (simp add: map_filter_simps)
next
  case (Cons f fs)
  from Cons.prems obtain md where md: "exifr_parse f = Inr md"
    by (auto simp: extraction_succeeds_def split: sum.splits)
  from Cons.prems have rest: "\<forall>g\<in>set fs. extraction_succeeds g" by simp
  show ?case
    by (simp only: uploadLoop_step_plotted [OF md] Cons.IH [OF rest])
       (simp add: map_filter_simps split: option.splits)
qed

lemma plotted_entry_coordinates:
  "gps_coordinates f = Some (la, lo) \<Longrightarrow> la \<noteq> 0 \<Longrightarrow> lo \<noteq> 0 \<Longrightarrow>
     \<exists>img. plotted_entry f = Some img \<and> latitude img = la \<and> longitude img = lo
           \<and> fileName img = file_name f"
  by (auto simp: plotted_entry_def gps_coordinates_def newImage_def
           split: sum.splits option.splits)

text \<open>
  The three ways in which \<open>handleImageUpload\<close> ends.
\<close>

lemma handleImageUpload_error:
  "uploadLoop fs [] = Inl err \<Longrightarrow>
     images (handleImageUpload (Some fs) s) = images s
     \<and> selectedImageIndex (handleImageUpload (Some fs) s) = selectedImageIndex s
     \<and> error (handleImageUpload (Some fs) s) \<noteq> None"
  by (simp add: handleImageUpload_def)

lemma handleImageUpload_empty:
  "uploadLoop fs [] = Inr [] \<Longrightarrow>
     images (handleImageUpload (Some fs) s) = images s
     \<and> selectedImageIndex (handleImageUpload (Some fs) s) = selectedImageIndex s
     \<and> error (handleImageUpload (Some fs) s) \<noteq> None"
  by (simp add: handleImageUpload_def)

lemma handleImageUpload_replace:
  "uploadLoop fs [] = Inr newImages \<Longrightarrow> newImages \<noteq> [] \<Longrightarrow>
     images (handleImageUpload (Some fs) s) = newImages
     \<and> selectedImageIndex (handleImageUpload (Some fs) s) = 0
     \<and> error (handleImageUpload (Some fs) s) = None"
  by (simp add: handleImageUpload_def)

lemma handleImageUpload_images:
  "images (handleImageUpload (Some fs) s) = images s
   \<or> uploadLoop fs [] = Inr (images (handleImageUpload (Some fs) s))"
  by (auto simp: handleImageUpload_def Let_def split: sum.splits)

lemma nonzero_file_plotted:
  assumes ok: "\<forall>f\<in>set fs. extraction_succeeds f"
    and f: "f \<in> set fs" and gps: "gps_coordinates f = Some (la, lo)"
    and nz: "la \<noteq> 0" "lo \<noteq> 0"
  shows "\<exists>img\<in>set (images (handleImageUpload (Some fs) s)).
            latitude img = la \<and> longitude img = lo \<and> fileName img = file_name f"
proof -
  from plotted_entry_coordinates [OF gps nz] obtain img where
    img: "plotted_entry f = Some img" "latitude img = la" "longitude img = lo"
         "fileName img = file_name f" by blast
  from img(1) f have mem: "img \<in> set (List.map_filter plotted_entry fs)"
    by (force simp: map_filter_def)
  then have ne: "List.map_filter plotted_entry fs \<noteq> []" by auto
  from uploadLoop_plotted [OF ok, of "[]"]
  have "uploadLoop fs [] = Inr (List.map_filter plotted_entry fs)" by simp
  from handleImageUpload_replace [OF this ne, of s]
  have "images (handleImageUpload (Some fs) s) = List.map_filter plotted_entry fs" by simp
  with mem img show ?thesis by auto
qed

lemma example_photo_gps:
  "gps_coordinates example_photo = Some (488566 / 10000, 23522 / 10000)"
  by (simp add: gps_coordinates_def example_defs)

lemma example_batch_ok:
  "\<forall>f\<in>set [example_plain, example_photo]. extraction_succeeds f \<and> nonzero_coordinates f"
  by (simp add: extraction_succeeds_def nonzero_coordinates_def gps_coordinates_def example_defs)

lemma example_batch_entries: "geotagged_entries [example_plain, example_photo] = [example_image]"
  by (simp add: geotagged_entries_def map_filter_simps geotagged_entry_def example_defs)

text \<open>
  Claim C4, as stated, fails: when a geotagged photo is uploaded together with a file that
  \<open>exifr\<close> rejects, the \<open>catch\<close> block runs and no entry is added for the photo.
\<close>

theorem geotagged_file_not_plotted:
  "gps_coordinates example_photo = Some (488566 / 10000, 23522 / 10000)
   \<and> images (handleImageUpload (Some [example_photo, example_corrupt]) initial_map_state) = []"
  by (simp add: gps_coordinates_def handleImageUpload_def truthy_number_def optional_chain_def
        example_defs)

text \<open>
  Claim C4, amended. When metadata extraction succeeds for every uploaded file, every file
  whose metadata contains a GPS latitude and a GPS longitude, neither of them 0, has an
  entry with that latitude and longitude in the images list after \<open>handleImageUpload\<close>,
  whatever the other files are. When extraction fails for some file, the images list is
  left as it was. In every case, an entry of the images list after the upload was in the
  list before, or belongs to an uploaded file that has a GPS latitude and longitude.
\<close>

theorem geotagged_files_plotted:
  "((\<forall>f\<in>set fs. extraction_succeeds f) \<longrightarrow>
      (\<forall>f\<in>set fs. \<forall>la lo. gps_coordinates f = Some (la, lo) \<and> la \<noteq> 0 \<and> lo \<noteq> 0 \<longrightarrow>
         (\<exists>img\<in>set (images (handleImageUpload (Some fs) s)).
            latitude img = la \<and> longitude img = lo \<and> fileName img = file_name f)))
   \<and> ((\<exists>f\<in>set fs. \<not> extraction_succeeds f) \<longrightarrow>
        images (handleImageUpload (Some fs) s) = images s)
   \<and> (\<forall>img\<in>set (images (handleImageUpload (Some fs) s)).
         img \<in> set (images s)
         \<or> (\<exists>f\<in>set fs. gps_coordinates f = Some (latitude img, longitude img)
                        \<and> fileName img = file_name f))"
proof (intro conjI)
  show "(\<forall>f\<in>set fs. extraction_succeeds f) \<longrightarrow>
      (\<forall>f\<in>set fs. \<forall>la lo. gps_coordinates f = Some (la, lo) \<and> la \<noteq> 0 \<and> lo \<noteq> 0 \<longrightarrow>
         (\<exists>img\<in>set (images (handleImageUpload (Some fs) s)).
            latitude img = la \<and> longitude img = lo \<and> fileName img = file_name f))"
    using nonzero_file_plotted [of fs _ _ _ s] by blast
next
  show "(\<exists>f\<in>set fs. \<not> extraction_succeeds f) \<longrightarrow>
        images (handleImageUpload (Some fs) s) = images s"
  proof
    assume "\<exists>f\<in>set fs. \<not> extraction_succeeds f"
    from uploadLoop_fails [OF this, of "[]"] obtain err where "uploadLoop fs [] = Inl err"
      by blast
    from handleImageUpload_error [OF this, of s]
    show "images (handleImageUpload (Some fs) s) = images s" by simp
  qed
next
  show "\<forall>img\<in>set (images (handleImageUpload (Some fs) s)).
         img \<in> set (images s)
         \<or> (\<exists>f\<in>set fs. gps_coordinates f = Some (latitude img, longitude img)
                        \<and> fileName img = file_name f)"
  proof
    fix img
    assume mem: "img \<in> set (images (handleImageUpload (Some fs) s))"
    from handleImageUpload_images [of fs s]
    show "img \<in> set (images s)
         \<or> (\<exists>f\<in>set fs. gps_coordinates f = Some (latitude img, longitude img)
                        \<and> fileName img = file_name f)"
    proof
      assume "images (handleImageUpload (Some fs) s) = images s"
      with mem show ?thesis by simp
    next
      assume "uploadLoop fs [] = Inr (images (handleImageUpload (Some fs) s))"
      from uploadLoop_entries [OF this] mem
      obtain f where "f \<in> set fs" "geotagged_entry f = Some img" by auto
      with geotagged_entry_coordinates [of f img] show ?thesis by blast
    qed
  qed
qed

text \<open>
  The upload of the photo taken on the equator followed by the geotagged photo, and the
  upload of the geotagged photo followed by a file that \<open>exifr\<close> rejects.
\<close>

theorem geotagged_files_plotted_witness:
  "extraction_succeeds example_equator \<and> extraction_succeeds example_photo
   \<and> example_photo \<in> set [example_equator, example_photo]
   \<and> gps_coordinates example_photo = Some (488566 / 10000, 23522 / 10000)
   \<and> (488566 / 10000 :: real) \<noteq> 0 \<and> (23522 / 10000 :: real) \<noteq> 0
   \<and> (\<exists>img\<in>set (images (handleImageUpload (Some [example_equator, example_photo]) example_state)).
         latitude img = 488566 / 10000 \<and> longitude img = 23522 / 10000
         \<and> fileName img = file_name example_photo)
   \<and> example_image \<in> set (images (handleImageUpload (Some [example_equator, example_photo]) example_state))
   \<and> example_image \<notin> set (images example_state)
   \<and> (\<exists>f\<in>set [example_equator, example_photo].
         gps_coordinates f = Some (latitude example_image, longitude example_image)
         \<and> fileName example_image = file_name f)
   \<and> (\<exists>f\<in>set [example_photo, example_corrupt]. \<not> extraction_succeeds f)
   \<and> images (handleImageUpload (Some [example_photo, example_corrupt]) example_state)
       = images example_state"
proof -
  have ok: "\<forall>f\<in>set [example_equator, example_photo]. extraction_succeeds f"
    by (simp add: extraction_succeeds_def example_defs)
  have mem: "example_photo \<in> set [example_equator, example_photo]" by simp
  have nz: "(488566 / 10000 :: real) \<noteq> 0 \<and> (23522 / 10000 :: real) \<noteq> 0" by simp
  have new: "example_image
      \<in> set (images (handleImageUpload (Some [example_equator, example_photo]) example_state))"
    by (simp add: handleImageUpload_def truthy_number_def optional_chain_def example_defs)
  have old: "example_image \<notin> set (images example_state)"
    by (simp add: newImage_def example_defs)
  have bad: "\<exists>f\<in>set [example_photo, example_corrupt]. \<not> extraction_succeeds f"
    by (simp add: extraction_succeeds_def example_defs)
  from geotagged_files_plotted [of "[example_equator, example_photo]" example_state]
    ok mem example_photo_gps nz new old
  have good: "(\<exists>img\<in>set (images (handleImageUpload (Some [example_equator, example_photo]) example_state)).
         latitude img = 488566 / 10000 \<and> longitude img = 23522 / 10000
         \<and> fileName img = file_name example_photo)
   \<and> (\<exists>f\<in>set [example_equator, example_photo].
         gps_coordinates f = Some (latitude example_image, longitude example_image)
         \<and> fileName example_image = file_name f)"
    by blast
  from geotagged_files_plotted [of "[example_photo, example_corrupt]" example_state] bad
  have kept: "images (handleImageUpload (Some [example_photo, example_corrupt]) example_state)
       = images example_state"
    by blast
  from good kept bad ok mem example_photo_gps new old show ?thesis by simp
qed

text \<open>
  Claim C7, as stated, fails on the same upload: one file yields GPS coordinates, yet the
  images list is not replaced and the selected index is not reset.
\<close>

theorem upload_not_replaced:
  "gps_coordinates example_photo \<noteq> None
   \<and> images (handleImageUpload (Some [example_photo, example_corrupt]) example_state)
       \<noteq> geotagged_entries [example_photo, example_corrupt]
   \<and> selectedImageIndex (handleImageUpload (Some [example_photo, example_corrupt]) example_state)
       \<noteq> 0"
  by (simp add: gps_coordinates_def handleImageUpload_def truthy_number_def optional_chain_def
        geotagged_entries_def map_filter_simps geotagged_entry_def example_defs)

text \<open>
  Claim C7, amended. If metadata extraction fails for some file, or no file has GPS
  coordinates, the images list and the selected index are unchanged and the error state is
  set. If extraction succeeds for every file, no coordinate is 0 and some file has GPS
  coordinates, the images list becomes the geotagged entries in file order and the selected
  index becomes 0.
\<close>

theorem upload_atomic:
  "(((\<exists>f\<in>set fs. \<not> extraction_succeeds f) \<or> (\<forall>f\<in>set fs. gps_coordinates f = None)) \<longrightarrow>
      images (handleImageUpload (Some fs) s) = images s
      \<and> selectedImageIndex (handleImageUpload (Some fs) s) = selectedImageIndex s
      \<and> error (handleImageUpload (Some fs) s) \<noteq> None)
   \<and> ((\<forall>f\<in>set fs. extraction_succeeds f \<and> nonzero_coordinates f)
        \<and> (\<exists>f\<in>set fs. gps_coordinates f \<noteq> None) \<longrightarrow>
      images (handleImageUpload (Some fs) s) = geotagged_entries fs
      \<and> selectedImageIndex (handleImageUpload (Some fs) s) = 0)"
proof -
  have fail: "images (handleImageUpload (Some fs) s) = images s
      \<and> selectedImageIndex (handleImageUpload (Some fs) s) = selectedImageIndex s
      \<and> error (handleImageUpload (Some fs) s) \<noteq> None"
    if "(\<exists>f\<in>set fs. \<not> extraction_succeeds f) \<or> (\<forall>f\<in>set fs. gps_coordinates f = None)"
  proof -
    from that have "(\<exists>err. uploadLoop fs [] = Inl err) \<or> uploadLoop fs [] = Inr []"
      using uploadLoop_fails [of fs "[]"] uploadLoop_no_gps [of fs "[]"] by blast
    then show ?thesis
      using handleImageUpload_error [of fs _ s] handleImageUpload_empty [of fs s] by blast
  qed
  have replace: "images (handleImageUpload (Some fs) s) = geotagged_entries fs
      \<and> selectedImageIndex (handleImageUpload (Some fs) s) = 0"
    if a: "(\<forall>f\<in>set fs. extraction_succeeds f \<and> nonzero_coordinates f)
        \<and> (\<exists>f\<in>set fs. gps_coordinates f \<noteq> None)"
  proof -
    from a obtain f where "f \<in> set fs" "geotagged_entry f \<noteq> None"
      by (auto simp: geotagged_entry_None)
    then have ne: "geotagged_entries fs \<noteq> []"
      using geotagged_entries_set [of fs] by auto
    from a uploadLoop_all [of fs "[]"] have "uploadLoop fs [] = Inr (geotagged_entries fs)"
      by simp
    from handleImageUpload_replace [OF this ne, of s] show ?thesis by simp
  qed
  from fail replace show ?thesis by blast
qed

text \<open>
  A failing upload and a successful one, both from \<open>example_state\<close>.
\<close>

theorem upload_atomic_witness:
  "(\<exists>f\<in>set [example_photo, example_corrupt]. \<not> extraction_succeeds f)
   \<and> images (handleImageUpload (Some [example_photo, example_corrupt]) example_state)
       = images example_state
   \<and> selectedImageIndex (handleImageUpload (Some [example_photo, example_corrupt]) example_state)
       = selectedImageIndex example_state
   \<and> error (handleImageUpload (Some [example_photo, example_corrupt]) example_state) \<noteq> None
   \<and> extraction_succeeds example_plain \<and> nonzero_coordinates example_plain
   \<and> extraction_succeeds example_photo \<and> nonzero_coordinates example_photo
   \<and> (\<exists>f\<in>set [example_plain, example_photo]. gps_coordinates f \<noteq> None)
   \<and> images (handleImageUpload (Some [example_plain, example_photo]) example_state)
       = [example_image]
   \<and> selectedImageIndex (handleImageUpload (Some [example_plain, example_photo]) example_state)
       = 0"
proof -
  have bad: "\<exists>f\<in>set [example_photo, example_corrupt]. \<not> extraction_succeeds f"
    by (simp add: extraction_succeeds_def example_defs)
  have some: "\<exists>f\<in>set [example_plain, example_photo]. gps_coordinates f \<noteq> None"
    by (rule bexI [of _ example_photo]) (simp_all add: example_photo_gps)
  from upload_atomic [of "[example_photo, example_corrupt]" example_state] bad
  have first: "images (handleImageUpload (Some [example_photo, example_corrupt]) example_state)
       = images example_state
   \<and> selectedImageIndex (handleImageUpload (Some [example_photo, example_corrupt]) example_state)
       = selectedImageIndex example_state
   \<and> error (handleImageUpload (Some [example_photo, example_corrupt]) example_state) \<noteq> None"
    by blast
  from upload_atomic [of "[example_plain, example_photo]" example_state] example_batch_ok some
  have second: "images (handleImageUpload (Some [example_plain, example_photo]) example_state)
       = geotagged_entries [example_plain, example_photo]
   \<and> selectedImageIndex (handleImageUpload (Some [example_plain, example_photo]) example_state)
       = 0"
    by blast
  from bad first example_batch_ok some second show ?thesis
    by (simp add: example_batch_entries)
qed

text \<open>
  A photo taken on the equator: its latitude 0 is falsy, so the truthiness test skips the
  file although its metadata has both coordinates.
\<close>

lemma zero_coordinate_dropped:
  "gps_coordinates example_equator = Some (0, 23522 / 10000)
   \<and> uploadLoop [example_equator] [] = Inr []"
  by (simp add: gps_coordinates_def truthy_number_def optional_chain_def example_defs)

section \<open>Properties of GPX parsing\<close>

lemma parseFloat_zero: "parseFloat ''0'' = Num 0"
  by (simp add: parseFloat_def unsignedValue_def isWhiteSpace_def isDecimalDigit_def
        digitsValue_def exponentValue_def)

lemma parseFloat_default: "parseFloat (or_string (getAttribute e a) ''0'') = attribute_value e a"
  by (simp add: or_string_def attribute_value_def parseFloat_zero split: option.splits)

lemma parseGPX_loop_map:
  "parseGPX_loop trackPoints i coordinates =
     coordinates @ map (\<lambda>e. (attribute_value e ''lat'', attribute_value e ''lon''))
                     (drop i trackPoints)"
proof (induction trackPoints i coordinates rule: parseGPX_loop.induct)
  case (1 trackPoints i coordinates)
  show ?case
  proof (cases "i < length trackPoints")
    case True
    then have d: "drop i trackPoints = trackPoints ! i # drop (Suc i) trackPoints"
      by (simp add: Cons_nth_drop_Suc)
    from True "1.IH" [OF True refl refl refl] show ?thesis
      by (subst parseGPX_loop.simps) (simp add: Let_def d parseFloat_default)
  next
    case False
    then show ?thesis by (subst parseGPX_loop.simps) simp
  qed
qed

text \<open>
  Claim C5, as stated, fails on a track point with an empty \<open>lat\<close> attribute: the parsed
  value of the empty string is \<open>NaN\<close>, and \<open>parseGPX\<close> returns 0.
\<close>

theorem parseGPX_empty_attribute:
  "parseGPX example_parser example_empty_lat_text = [(Num 0, Num (5 / 2))]
   \<and> track_coordinates_stated (example_parser example_empty_lat_text) = [(NaN, Num (5 / 2))]"
proof -
  have doc: "example_parser example_empty_lat_text = example_empty_lat_doc"
    by (simp add: example_parser_def example_gpx_text_def example_empty_lat_text_def)
  have tp: "doc_getElementsByTagName example_empty_lat_doc ''trkpt''
              = [Element ''trkpt'' [(''lat'', ''''), (''lon'', ''2.5'')] []]"
    by (simp add: doc_getElementsByTagName_def example_empty_lat_doc_def)
  have lon: "parseFloat ''2.5'' = Num (5 / 2)" by (simp add: parseFloat_defs)
  have empty: "parseFloat [] = NaN" by (simp add: parseFloat_def)
  have code: "parseGPX example_parser example_empty_lat_text = [(Num 0, Num (5 / 2))]"
    by (simp add: parseGPX_def parseGPX_doc_def doc tp parseGPX_loop_map attribute_value_def
          getAttribute_def lon)
  have stated: "track_coordinates_stated (example_parser example_empty_lat_text)
                  = [(NaN, Num (5 / 2))]"
    by (simp add: track_coordinates_stated_def doc tp attribute_value_stated_def
          getAttribute_def lon empty)
  from code stated show ?thesis by simp
qed

text \<open>
  Claim C5, amended. \<open>parseGPX\<close> returns one pair for each \<open>trkpt\<close> element of the parsed
  document, in document order; the components are the parsed values of the element's
  \<open>lat\<close> and \<open>lon\<close> attributes, and a missing or empty attribute yields 0.
\<close>

theorem parseGPX_track_points:
  "parseGPX parseFromString gpxString = track_coordinates (parseFromString gpxString)
   \<and> length (parseGPX parseFromString gpxString)
       = length (doc_getElementsByTagName (parseFromString gpxString) ''trkpt'')"
  by (simp add: parseGPX_def parseGPX_doc_def track_coordinates_def parseGPX_loop_map)

section \<open>Properties of GPX upload\<close>

lemma gpxPoints_loop_length:
  "length (gpxPoints_loop trkpts i points) = length points + (length trkpts - i)"
proof (induction trkpts i points rule: gpxPoints_loop.induct)
  case (1 trkpts i points)
  show ?case
  proof (cases "i < length trkpts")
    case True
    from True "1.IH" [OF True refl refl refl refl refl refl refl] show ?thesis
      by (subst gpxPoints_loop.simps) (simp add: Let_def)
  next
    case False
    then show ?thesis by (subst gpxPoints_loop.simps) simp
  qed
qed

lemma gpxPoints_loop_empty: "gpxPoints_loop trkpts 0 [] = [] \<longleftrightarrow> trkpts = []"
  using gpxPoints_loop_length [of trkpts 0 "[]"] by (metis length_0_conv add_0 diff_zero)

lemma gpxUpload_try_ok:
  "gpx_acceptable parseFromString f \<Longrightarrow>
     \<exists>points. gpxUpload_try parseFromString f = Inr points \<and> points \<noteq> []"
  by (auto simp: gpx_acceptable_def gpxUpload_try_def Let_def gpxPoints_loop_empty
           split: sum.splits)

lemma gpxUpload_try_error:
  "\<not> gpx_acceptable parseFromString f \<Longrightarrow> \<exists>err. gpxUpload_try parseFromString f = Inl err"
  by (auto simp: gpx_acceptable_def gpxUpload_try_def Let_def gpxPoints_loop_empty
           split: sum.splits)

lemma handleGpxUpload_no_file:
  "handleGpxUpload parseFromString None s = s
   \<and> handleGpxUpload parseFromString (Some []) s = s"
  by (simp add: handleGpxUpload_def)

text \<open>
  Claim C6. After \<open>handleGpxUpload\<close> on an uploaded file, \<open>gpxPoints\<close> is non-empty if and
  only if the file parses to a document with no \<open>parsererror\<close> element and at least one
  \<open>trkpt\<close> element; in every other case \<open>gpxPoints\<close> is empty and \<open>gpxError\<close> is set.
\<close>

theorem gpx_upload_outcome:
  "(gpxPoints (handleGpxUpload parseFromString (Some (f # rest)) s) \<noteq> []
      \<longleftrightarrow> gpx_acceptable parseFromString f)
   \<and> (\<not> gpx_acceptable parseFromString f \<longrightarrow>
        gpxPoints (handleGpxUpload parseFromString (Some (f # rest)) s) = []
        \<and> gpxError (handleGpxUpload parseFromString (Some (f # rest)) s) \<noteq> None)"
proof (cases "gpx_acceptable parseFromString f")
  case True
  from gpxUpload_try_ok [OF True] obtain points where
    "gpxUpload_try parseFromString f = Inr points" "points \<noteq> []" by blast
  with True show ?thesis by (simp add: handleGpxUpload_def)
next
  case False
  from gpxUpload_try_error [OF False] obtain err where
    "gpxUpload_try parseFromString f = Inl err" by blast
  with False show ?thesis by (simp add: handleGpxUpload_def)
qed

text \<open>
  An acceptable GPX file and one that does not parse.
\<close>

theorem gpx_upload_outcome_witness:
  "gpx_acceptable example_parser example_gpx_file
   \<and> gpxPoints (handleGpxUpload example_parser (Some [example_gpx_file]) initial_gpx_state) \<noteq> []
   \<and> \<not> gpx_acceptable example_parser example_bad_gpx_file
   \<and> gpxPoints (handleGpxUpload example_parser (Some [example_bad_gpx_file]) initial_gpx_state) = []
   \<and> gpxError (handleGpxUpload example_parser (Some [example_bad_gpx_file]) initial_gpx_state)
       \<noteq> None"
proof -
  have good: "gpx_acceptable example_parser example_gpx_file"
    by (simp add: gpx_acceptable_def doc_getElementsByTagName_def gpx_example_defs)
  have bad: "\<not> gpx_acceptable example_parser example_bad_gpx_file"
    by (simp add: gpx_acceptable_def doc_getElementsByTagName_def gpx_example_defs)
  from gpx_upload_outcome [of example_parser example_gpx_file "[]" initial_gpx_state] good
  have g: "gpxPoints (handleGpxUpload example_parser (Some [example_gpx_file]) initial_gpx_state)
             \<noteq> []" by blast
  from gpx_upload_outcome [of example_parser example_bad_gpx_file "[]" initial_gpx_state] bad
  have b: "gpxPoints (handleGpxUpload example_parser (Some [example_bad_gpx_file])
                        initial_gpx_state) = []
         \<and> gpxError (handleGpxUpload example_parser (Some [example_bad_gpx_file])
                        initial_gpx_state) \<noteq> None" by blast
  from good g bad b show ?thesis by blast
qed

end
